theory Spec2Isabelle
  imports Main "HOL-Library.Sublist" "HOL-Library.AList"
begin

section \<open>Strings, bytes and characters\<close>

text \<open>
  A JavaScript string is modelled by the bytes of its UTF-8 encoding, as an Isabelle
  \<open>string\<close>: an ASCII character is one \<open>char\<close>, any other code point is the two
  to four bytes of its encoding. A \<open>Buffer\<close> is a list of bytes as well, so
  \<open>Buffer.from(s)\<close> (which encodes \<open>s\<close> as UTF-8) is the identity on this
  representation. Strings with unpaired surrogates have no UTF-8 encoding and are not
  represented.
\<close>

type_synonym Buffer = "char list"

definition byte :: "char \<Rightarrow> nat" where
  "byte c = of_char c"

definition is_ascii_upper_alpha :: "char \<Rightarrow> bool" where
  "is_ascii_upper_alpha c = (65 \<le> byte c \<and> byte c \<le> 90)"

definition is_ascii_lower_alpha :: "char \<Rightarrow> bool" where
  "is_ascii_lower_alpha c = (97 \<le> byte c \<and> byte c \<le> 122)"

definition is_ascii_alpha :: "char \<Rightarrow> bool" where
  "is_ascii_alpha c = (is_ascii_upper_alpha c \<or> is_ascii_lower_alpha c)"

definition is_ascii_digit :: "char \<Rightarrow> bool" where
  "is_ascii_digit c = (48 \<le> byte c \<and> byte c \<le> 57)"

definition is_ascii_alphanumeric :: "char \<Rightarrow> bool" where
  "is_ascii_alphanumeric c = (is_ascii_alpha c \<or> is_ascii_digit c)"

definition ascii_lowercase :: "char \<Rightarrow> char" where
  "ascii_lowercase c = (if is_ascii_upper_alpha c then char_of (byte c + 32) else c)"

definition is_c0_control_or_space :: "char \<Rightarrow> bool" where
  "is_c0_control_or_space c = (byte c \<le> 32)"

definition is_ascii_tab_or_newline :: "char \<Rightarrow> bool" where
  "is_ascii_tab_or_newline c = (byte c = 9 \<or> byte c = 10 \<or> byte c = 13)"

definition hex_digit :: "nat \<Rightarrow> char" where
  "hex_digit n = (if n < 10 then char_of (48 + n) else char_of (55 + n))"

definition hex_value :: "char \<Rightarrow> nat option" where
  "hex_value c =
     (if is_ascii_digit c then Some (byte c - 48)
      else if 65 \<le> byte c \<and> byte c \<le> 70 then Some (byte c - 55)
      else if 97 \<le> byte c \<and> byte c \<le> 102 then Some (byte c - 87)
      else None)"

text \<open>Decimal rendering of a number, as a template literal renders \<open>response.status\<close>.\<close>

fun string_of_nat :: "nat \<Rightarrow> string" where
  "string_of_nat n =
     (if n < 10 then [char_of (48 + n)]
      else string_of_nat (n div 10) @ [char_of (48 + n mod 10)])"

declare string_of_nat.simps [simp del]

subsection \<open>\<open>String.prototype.split\<close>, \<open>Array.prototype.join\<close>, \<open>substr\<close>\<close>

text \<open>
  \<open>s.split(sep)\<close> for a one-character separator: the pieces between the separators,
  always at least one piece (the empty string splits into one empty piece).
\<close>

fun split_where :: "(char \<Rightarrow> bool) \<Rightarrow> string \<Rightarrow> string list" where
  "split_where sep [] = [[]]"
| "split_where sep (c # cs) =
     (if sep c then [] # split_where sep cs
      else (case split_where sep cs of
              [] \<Rightarrow> [[c]]
            | p # ps \<Rightarrow> (c # p) # ps))"

definition js_split :: "char \<Rightarrow> string \<Rightarrow> string list" where
  "js_split sep s = split_where (\<lambda>c. c = sep) s"

text \<open>
  \<open>a.join(sep)\<close>; an element that is \<open>undefined\<close> (\<open>None\<close>) is joined as the empty
  string.
\<close>

fun js_join :: "string \<Rightarrow> string option list \<Rightarrow> string" where
  "js_join sep [] = []"
| "js_join sep [x] = (case x of None \<Rightarrow> [] | Some s \<Rightarrow> s)"
| "js_join sep (x # y # ys) =
     (case x of None \<Rightarrow> [] | Some s \<Rightarrow> s) @ sep @ js_join sep (y # ys)"

text \<open>
  Array destructuring \<open>[a, b, c] = arr\<close> reads \<open>arr[i]\<close>, which is \<open>undefined\<close>
  past the end of the array.
\<close>

definition js_index :: "'a list \<Rightarrow> nat \<Rightarrow> 'a option" where
  "js_index xs i = (if i < length xs then Some (xs ! i) else None)"

text \<open>
  \<open>s.substr(n)\<close> drops \<open>n\<close> UTF-16 code units. On the UTF-8 representation a
  character of one to three bytes is one code unit and a character of four bytes is
  two. Cutting between the two code units of such a character leaves an unpaired
  surrogate, which every consumer in this program (the \<open>search\<close> setter of a URL)
  reads as U+FFFD; it is written as U+FFFD here.
\<close>

definition replacement_character :: string where
  "replacement_character = [CHR 0xEF, CHR 0xBF, CHR 0xBD]"

definition utf8_length :: "char \<Rightarrow> nat" where
  "utf8_length c =
     (if byte c < 0xC0 then 1 else if byte c < 0xE0 then 2 else if byte c < 0xF0 then 3 else 4)"

fun js_substr :: "nat \<Rightarrow> string \<Rightarrow> string" where
  "js_substr 0 s = s"
| "js_substr (Suc n) [] = []"
| "js_substr (Suc n) (c # cs) =
     (if utf8_length c < 4 then js_substr n (drop (utf8_length c - 1) cs)
      else if n = 0 then replacement_character @ drop 3 cs
      else js_substr (n - 1) (drop 3 cs))"

subsection \<open>UTF-8 decoding\<close>

text \<open>
  The UTF-8 decoder of the Encoding standard, on the representation above: a
  well-formed sequence decodes to a code point, whose representation is the sequence
  itself; an ill-formed byte, or a sequence that is cut short, decodes to U+FFFD, and
  decoding goes on with the byte that did not fit.
\<close>

definition in_range :: "nat \<Rightarrow> nat \<Rightarrow> char \<Rightarrow> bool" where
  "in_range lo hi c = (lo \<le> byte c \<and> byte c \<le> hi)"

definition lower_boundary :: "char \<Rightarrow> nat" where
  "lower_boundary c = (if byte c = 0xE0 then 0xA0 else if byte c = 0xF0 then 0x90 else 0x80)"

definition upper_boundary :: "char \<Rightarrow> nat" where
  "upper_boundary c = (if byte c = 0xED then 0x9F else if byte c = 0xF4 then 0x8F else 0xBF)"

fun utf8_decode :: "char list \<Rightarrow> string" where
  "utf8_decode [] = []"
| "utf8_decode (c # cs) =
     (if byte c < 0x80 then c # utf8_decode cs
      else if in_range 0xC2 0xDF c then
        (case cs of
           [] \<Rightarrow> replacement_character
         | c1 # r1 \<Rightarrow>
             if in_range 0x80 0xBF c1 then c # c1 # utf8_decode r1
             else replacement_character @ utf8_decode cs)
      else if in_range 0xE0 0xEF c then
        (case cs of
           [] \<Rightarrow> replacement_character
         | c1 # r1 \<Rightarrow>
             if in_range (lower_boundary c) (upper_boundary c) c1 then
               (case r1 of
                  [] \<Rightarrow> replacement_character
                | c2 # r2 \<Rightarrow>
                    if in_range 0x80 0xBF c2 then c # c1 # c2 # utf8_decode r2
                    else replacement_character @ utf8_decode r1)
             else replacement_character @ utf8_decode cs)
      else if in_range 0xF0 0xF4 c then
        (case cs of
           [] \<Rightarrow> replacement_character
         | c1 # r1 \<Rightarrow>
             if in_range (lower_boundary c) (upper_boundary c) c1 then
               (case r1 of
                  [] \<Rightarrow> replacement_character
                | c2 # r2 \<Rightarrow>
                    if in_range 0x80 0xBF c2 then
                      (case r2 of
                         [] \<Rightarrow> replacement_character
                       | c3 # r3 \<Rightarrow>
                           if in_range 0x80 0xBF c3 then c # c1 # c2 # c3 # utf8_decode r3
                           else replacement_character @ utf8_decode r2)
                    else replacement_character @ utf8_decode r1)
             else replacement_character @ utf8_decode cs)
      else replacement_character @ utf8_decode cs)"

text \<open>
  Well-formed UTF-8 (the Unicode standard's table of well-formed byte sequences),
  stated on its own: a sequence of ASCII bytes, two-byte sequences \<open>C2..DF 80..BF\<close>,
  three-byte sequences \<open>E0 A0..BF 80..BF\<close>, \<open>E1..EC 80..BF 80..BF\<close>,
  \<open>ED 80..9F 80..BF\<close>, \<open>EE..EF 80..BF 80..BF\<close>, and four-byte sequences
  \<open>F0 90..BF 80..BF 80..BF\<close>, \<open>F1..F3 80..BF 80..BF 80..BF\<close>,
  \<open>F4 80..8F 80..BF 80..BF\<close>.
\<close>

inductive well_formed_utf8 :: "char list \<Rightarrow> bool" where
  wf_empty: "well_formed_utf8 []"
| wf_ascii: "byte c \<le> 0x7F \<Longrightarrow> well_formed_utf8 cs \<Longrightarrow> well_formed_utf8 (c # cs)"
| wf_two: "in_range 0xC2 0xDF c \<Longrightarrow> in_range 0x80 0xBF c1 \<Longrightarrow> well_formed_utf8 cs
     \<Longrightarrow> well_formed_utf8 (c # c1 # cs)"
| wf_three_E0: "byte c = 0xE0 \<Longrightarrow> in_range 0xA0 0xBF c1 \<Longrightarrow> in_range 0x80 0xBF c2
     \<Longrightarrow> well_formed_utf8 cs \<Longrightarrow> well_formed_utf8 (c # c1 # c2 # cs)"
| wf_three_E1: "in_range 0xE1 0xEC c \<Longrightarrow> in_range 0x80 0xBF c1 \<Longrightarrow> in_range 0x80 0xBF c2
     \<Longrightarrow> well_formed_utf8 cs \<Longrightarrow> well_formed_utf8 (c # c1 # c2 # cs)"
| wf_three_ED: "byte c = 0xED \<Longrightarrow> in_range 0x80 0x9F c1 \<Longrightarrow> in_range 0x80 0xBF c2
     \<Longrightarrow> well_formed_utf8 cs \<Longrightarrow> well_formed_utf8 (c # c1 # c2 # cs)"
| wf_three_EE: "in_range 0xEE 0xEF c \<Longrightarrow> in_range 0x80 0xBF c1 \<Longrightarrow> in_range 0x80 0xBF c2
     \<Longrightarrow> well_formed_utf8 cs \<Longrightarrow> well_formed_utf8 (c # c1 # c2 # cs)"
| wf_four_F0: "byte c = 0xF0 \<Longrightarrow> in_range 0x90 0xBF c1 \<Longrightarrow> in_range 0x80 0xBF c2
     \<Longrightarrow> in_range 0x80 0xBF c3 \<Longrightarrow> well_formed_utf8 cs
     \<Longrightarrow> well_formed_utf8 (c # c1 # c2 # c3 # cs)"
| wf_four_F1: "in_range 0xF1 0xF3 c \<Longrightarrow> in_range 0x80 0xBF c1 \<Longrightarrow> in_range 0x80 0xBF c2
     \<Longrightarrow> in_range 0x80 0xBF c3 \<Longrightarrow> well_formed_utf8 cs
     \<Longrightarrow> well_formed_utf8 (c # c1 # c2 # c3 # cs)"
| wf_four_F4: "byte c = 0xF4 \<Longrightarrow> in_range 0x80 0x8F c1 \<Longrightarrow> in_range 0x80 0xBF c2
     \<Longrightarrow> in_range 0x80 0xBF c3 \<Longrightarrow> well_formed_utf8 cs
     \<Longrightarrow> well_formed_utf8 (c # c1 # c2 # c3 # cs)"

code_pred well_formed_utf8 .

section \<open>The platform's URL class\<close>

text \<open>
  \<open>new URL(s)\<close>, its getters and its setters are the platform's (the URL standard's),
  not this repository's. They are modelled for what \<open>AzureUrlReader\<close> reads and
  writes: absolute URLs with a special scheme other than \<open>file\<close> (\<open>http\<close>,
  \<open>https\<close>, \<open>ws\<close>, \<open>wss\<close>, \<open>ftp\<close>) and a host that is a plain ASCII domain name.
  The parser below follows the standard's state machine for these inputs, state by
  state. Inputs outside this fragment (other schemes, IP address literals,
  percent-escaped, internationalised or punycode hosts) are reported like inputs the
  platform rejects; no theorem below concludes anything from a rejection.
\<close>

subsection \<open>Percent-encoding\<close>

definition c0_control_percent_encode_set :: "char \<Rightarrow> bool" where
  "c0_control_percent_encode_set c = (byte c \<le> 0x1F \<or> byte c > 0x7E)"

definition fragment_percent_encode_set :: "char \<Rightarrow> bool" where
  \<comment> \<open>space, double quote, less-than, greater-than, backtick\<close>
  "fragment_percent_encode_set c =
     (c0_control_percent_encode_set c \<or> byte c \<in> {0x20, 0x22, 0x3C, 0x3E, 0x60})"

definition query_percent_encode_set :: "char \<Rightarrow> bool" where
  \<comment> \<open>space, double quote, number sign, less-than, greater-than\<close>
  "query_percent_encode_set c =
     (c0_control_percent_encode_set c \<or> byte c \<in> {0x20, 0x22, 0x23, 0x3C, 0x3E})"

definition special_query_percent_encode_set :: "char \<Rightarrow> bool" where
  \<comment> \<open>and the apostrophe\<close>
  "special_query_percent_encode_set c = (query_percent_encode_set c \<or> byte c = 0x27)"

definition path_percent_encode_set :: "char \<Rightarrow> bool" where
  \<comment> \<open>and question mark, backtick, left and right curly bracket (a later revision of
     the standard adds the circumflex; no theorem below has one in a path)\<close>
  "path_percent_encode_set c =
     (query_percent_encode_set c \<or> byte c \<in> {0x3F, 0x60, 0x7B, 0x7D})"

definition userinfo_percent_encode_set :: "char \<Rightarrow> bool" where
  \<comment> \<open>and slash, colon, semicolon, equals, at sign, square brackets, backslash,
     circumflex, vertical bar\<close>
  "userinfo_percent_encode_set c =
     (path_percent_encode_set c \<or>
      byte c \<in> {0x2F, 0x3A, 0x3B, 0x3D, 0x40, 0x5B, 0x5C, 0x5D, 0x5E, 0x7C})"

definition percent_encode_byte :: "char \<Rightarrow> string" where
  "percent_encode_byte c = [CHR ''%'', hex_digit (byte c div 16), hex_digit (byte c mod 16)]"

definition percent_encode :: "(char \<Rightarrow> bool) \<Rightarrow> string \<Rightarrow> string" where
  "percent_encode encode_set s =
     concat (map (\<lambda>c. if encode_set c then percent_encode_byte c else [c]) s)"

fun percent_decode :: "string \<Rightarrow> char list" where
  "percent_decode (p # h # l # cs) =
     (if p = CHR ''%'' then
        (case (hex_value h, hex_value l) of
           (Some a, Some b) \<Rightarrow> char_of (16 * a + b) # percent_decode cs
         | _ \<Rightarrow> p # percent_decode (h # l # cs))
      else p # percent_decode (h # l # cs))"
| "percent_decode (c # cs) = c # percent_decode cs"
| "percent_decode [] = []"

text \<open>
  \<open>encodeURIComponent\<close> (ECMAScript): every byte of the UTF-8 encoding is escaped but
  those of \<open>A-Z a-z 0-9 - _ . ! ~ * ' ( )\<close>.
\<close>

definition uri_unreserved :: "char \<Rightarrow> bool" where
  "uri_unreserved c =
     (is_ascii_alphanumeric c \<or>
      byte c \<in> {0x2D, 0x5F, 0x2E, 0x21, 0x7E, 0x2A, 0x27, 0x28, 0x29})"

definition encodeURIComponent :: "string \<Rightarrow> string" where
  "encodeURIComponent s = percent_encode (\<lambda>c. \<not> uri_unreserved c) s"

subsection \<open>The URL record\<close>

record URL =
  scheme :: string
  username :: string
  password :: string
  hostname :: string
  port :: "nat option"
  segments :: "string list"
  query :: "string option"
  fragment :: "string option"

datatype error =
    Error string
  | NotFoundError string
  | TypeError string
  | OtherError string string

text \<open>\<open>`${e}`\<close> for a thrown error: its name, then its message when it has one.\<close>

definition error_name :: "error \<Rightarrow> string" where
  "error_name e =
     (case e of
        Error m \<Rightarrow> ''Error''
      | NotFoundError m \<Rightarrow> ''NotFoundError''
      | TypeError m \<Rightarrow> ''TypeError''
      | OtherError n m \<Rightarrow> n)"

definition error_message :: "error \<Rightarrow> string" where
  "error_message e =
     (case e of
        Error m \<Rightarrow> m
      | NotFoundError m \<Rightarrow> m
      | TypeError m \<Rightarrow> m
      | OtherError n m \<Rightarrow> m)"

definition error_toString :: "error \<Rightarrow> string" where
  "error_toString e =
     (if error_message e = [] then error_name e
      else if error_name e = [] then error_message e
      else error_name e @ '': '' @ error_message e)"

definition default_port :: "string \<Rightarrow> nat option" where
  "default_port s =
     (if s = ''ftp'' then Some 21
      else if s = ''http'' \<or> s = ''ws'' then Some 80
      else if s = ''https'' \<or> s = ''wss'' then Some 443
      else None)"

subsection \<open>Getters\<close>

definition url_host :: "URL \<Rightarrow> string" where
  \<comment> \<open>the getter \<open>url.host\<close>: the host name, and the port when there is one\<close>
  "url_host u = (case port u of None \<Rightarrow> hostname u | Some p \<Rightarrow> hostname u @ '':'' @ string_of_nat p)"

definition pathname :: "URL \<Rightarrow> string" where
  "pathname u = concat (map (\<lambda>s. CHR ''/'' # s) (segments u))"

text \<open>The URL serializer: \<open>url.href\<close>, \<open>url.toString()\<close> and \<open>`${url}`\<close>.\<close>

definition href :: "URL \<Rightarrow> string" where
  "href u =
     scheme u @ ''://'' @
     (if username u \<noteq> [] \<or> password u \<noteq> [] then
        username u @ (if password u \<noteq> [] then CHR '':'' # password u else []) @ ''@''
      else []) @
     url_host u @ pathname u @
     (case query u of None \<Rightarrow> [] | Some q \<Rightarrow> CHR ''?'' # q) @
     (case fragment u of None \<Rightarrow> [] | Some f \<Rightarrow> CHR ''#'' # f)"

subsection \<open>The parser\<close>

definition trim :: "(char \<Rightarrow> bool) \<Rightarrow> string \<Rightarrow> string" where
  "trim sp s = rev (dropWhile sp (rev (dropWhile sp s)))"

definition is_scheme_char :: "char \<Rightarrow> bool" where
  "is_scheme_char c = (is_ascii_alphanumeric c \<or> c = CHR ''+'' \<or> c = CHR ''-'' \<or> c = CHR ''.'')"

text \<open>
  Scheme start state and scheme state: a letter, then letters, digits, \<open>+\<close>, \<open>-\<close>,
  \<open>.\<close> up to a colon; the scheme is lowercased. Anything else is the no scheme state,
  which fails when there is no base URL.
\<close>

definition parse_scheme :: "string \<Rightarrow> (string \<times> string) option" where
  "parse_scheme s =
     (case s of
        [] \<Rightarrow> None
      | c # _ \<Rightarrow>
          if \<not> is_ascii_alpha c then None
          else (case dropWhile is_scheme_char s of
                  [] \<Rightarrow> None
                | d # rest \<Rightarrow>
                    if d = CHR '':'' then Some (map ascii_lowercase (takeWhile is_scheme_char s), rest)
                    else None))"

definition is_url_slash :: "char \<Rightarrow> bool" where
  \<comment> \<open>in a special URL a backslash is read as a slash\<close>
  "is_url_slash c = (c = CHR ''/'' \<or> byte c = 0x5C)"

definition is_authority_end :: "char \<Rightarrow> bool" where
  "is_authority_end c = (is_url_slash c \<or> c = CHR ''?'' \<or> c = CHR ''#'')"

text \<open>
  Authority state: the credentials are what stands before the last \<open>@\<close>; the user
  name ends at their first colon.
\<close>

definition split_credentials :: "string \<Rightarrow> string option \<times> string" where
  "split_credentials a =
     (if CHR ''@'' \<in> set a then
        (Some (rev (tl (dropWhile (\<lambda>c. c \<noteq> CHR ''@'') (rev a)))),
         rev (takeWhile (\<lambda>c. c \<noteq> CHR ''@'') (rev a)))
      else (None, a))"

fun nat_of_digits :: "nat \<Rightarrow> string \<Rightarrow> nat" where
  "nat_of_digits acc [] = acc"
| "nat_of_digits acc (c # cs) = nat_of_digits (10 * acc + (byte c - 48)) cs"

text \<open>Port state: \<open>None\<close> is failure, \<open>Some None\<close> the null port.\<close>

definition parse_port :: "string \<Rightarrow> string \<Rightarrow> nat option option" where
  "parse_port sch p =
     (if p = [] then Some None
      else if \<not> list_all is_ascii_digit p then None
      else if nat_of_digits 0 p > 65535 then None
      else if default_port sch = Some (nat_of_digits 0 p) then Some None
      else Some (Some (nat_of_digits 0 p)))"

text \<open>
  The host parser, for a plain domain name: letters, digits, \<open>-\<close>, \<open>.\<close> and \<open>_\<close>,
  whose last label does not start with a digit (that would be read as an IPv4
  address) and with no punycode label. Such a host is lowercased and nothing else.
  \<open>None\<close> is a failure of the platform's parser or a host outside this model.
\<close>

definition is_plain_host_char :: "char \<Rightarrow> bool" where
  "is_plain_host_char c =
     (is_ascii_alphanumeric c \<or> c = CHR ''-'' \<or> c = CHR ''.'' \<or> c = CHR ''_'')"

definition last_label :: "string \<Rightarrow> string" where
  "last_label h =
     (let ls = split_where (\<lambda>c. c = CHR ''.'') h
      in if last ls = [] \<and> 1 < length ls then last (butlast ls) else last ls)"

definition ends_in_a_number :: "string \<Rightarrow> bool" where
  "ends_in_a_number h = (case last_label h of [] \<Rightarrow> False | c # _ \<Rightarrow> is_ascii_digit c)"

definition has_punycode_label :: "string \<Rightarrow> bool" where
  "has_punycode_label h =
     list_ex (\<lambda>l. take 4 l = ''xn--'') (split_where (\<lambda>c. c = CHR ''.'') (map ascii_lowercase h))"

definition parse_host :: "string \<Rightarrow> string option" where
  "parse_host h =
     (if h = [] \<or> \<not> list_all is_plain_host_char h \<or> ends_in_a_number h \<or> has_punycode_label h
      then None
      else Some (map ascii_lowercase h))"

text \<open>
  Path state. The input is cut at every slash; a segment \<open>.\<close> is dropped and a
  segment \<open>..\<close> removes the segment before it (each also written with \<open>%2e\<close>); when
  such a segment is the last one, an empty segment is added. Other segments are
  percent-encoded with the path percent-encode set.
\<close>

definition is_single_dot :: "string \<Rightarrow> bool" where
  "is_single_dot s = (map ascii_lowercase s \<in> {''.'', ''%2e''})"

definition is_double_dot :: "string \<Rightarrow> bool" where
  "is_double_dot s = (map ascii_lowercase s \<in> {''..'', ''.%2e'', ''%2e.'', ''%2e%2e''})"

fun path_state :: "string list \<Rightarrow> string list \<Rightarrow> string list" where
  "path_state acc [] = acc"
| "path_state acc [s] =
     (if is_double_dot s then butlast acc @ [[]]
      else if is_single_dot s then acc @ [[]]
      else acc @ [percent_encode path_percent_encode_set s])"
| "path_state acc (s # t # ts) =
     (if is_double_dot s then path_state (butlast acc) (t # ts)
      else if is_single_dot s then path_state acc (t # ts)
      else path_state (acc @ [percent_encode path_percent_encode_set s]) (t # ts))"

text \<open>
  Path start state, then path state, for a special URL: a leading slash is the
  separator before the first segment.
\<close>

definition parse_path :: "string \<Rightarrow> string list" where
  "parse_path v =
     path_state []
       (split_where is_url_slash
          (case v of [] \<Rightarrow> [] | c # cs \<Rightarrow> if is_url_slash c then cs else v))"

definition parse_query_fragment :: "string \<Rightarrow> string option \<times> string option" where
  "parse_query_fragment r =
     (let frag = (\<lambda>f. case f of
                    [] \<Rightarrow> None
                  | _ # f' \<Rightarrow> Some (percent_encode fragment_percent_encode_set f'))
      in case r of
           [] \<Rightarrow> (None, None)
         | c # q \<Rightarrow>
             if c = CHR ''?'' then
               (Some (percent_encode special_query_percent_encode_set
                        (takeWhile (\<lambda>c. c \<noteq> CHR ''#'') q)),
                frag (dropWhile (\<lambda>c. c \<noteq> CHR ''#'') q))
             else (None, frag r))"

definition invalid_url :: error where
  "invalid_url = TypeError ''Invalid URL''"

text \<open>
  Authority state, host state and port state, then the rest. \<open>rest\<close> is the input
  after the scheme's colon and after the slashes (and backslashes) that follow it.
\<close>

definition parse_special :: "string \<Rightarrow> string \<Rightarrow> error + URL" where
  "parse_special sch rest =
     (let authority = takeWhile (\<lambda>c. \<not> is_authority_end c) rest;
          tail = dropWhile (\<lambda>c. \<not> is_authority_end c) rest;
          (credentials, hostport) = split_credentials authority;
          h = takeWhile (\<lambda>c. c \<noteq> CHR '':'') hostport;
          p = drop 1 (dropWhile (\<lambda>c. c \<noteq> CHR '':'') hostport);
          (q, f) = parse_query_fragment (dropWhile (\<lambda>c. c \<noteq> CHR ''?'' \<and> c \<noteq> CHR ''#'') tail)
      in case parse_host h of
           None \<Rightarrow> Inl invalid_url
         | Some hn \<Rightarrow>
             (case parse_port sch p of
                None \<Rightarrow> Inl invalid_url
              | Some pt \<Rightarrow>
                  Inr \<lparr> scheme = sch,
                        username = (case credentials of
                                      None \<Rightarrow> []
                                    | Some cr \<Rightarrow> percent_encode userinfo_percent_encode_set
                                                  (takeWhile (\<lambda>c. c \<noteq> CHR '':'') cr)),
                        password = (case credentials of
                                      None \<Rightarrow> []
                                    | Some cr \<Rightarrow> percent_encode userinfo_percent_encode_set
                                                  (drop 1 (dropWhile (\<lambda>c. c \<noteq> CHR '':'') cr))),
                        hostname = hn,
                        port = pt,
                        segments = parse_path (takeWhile (\<lambda>c. c \<noteq> CHR ''?'' \<and> c \<noteq> CHR ''#'') tail),
                        query = q,
                        fragment = f \<rparr>))"

text \<open>
  \<open>new URL(input)\<close> with no base URL: leading and trailing C0 controls and spaces are
  stripped, tabs and newlines are removed, the scheme is read, and for a special
  scheme other than \<open>file\<close> every slash and backslash after the colon is skipped
  before the authority. \<open>Inl\<close> is the \<open>TypeError\<close> the constructor throws (its
  message is the platform's; no theorem depends on it).
\<close>

definition URL_new :: "string \<Rightarrow> error + URL" where
  "URL_new input =
     (case parse_scheme (filter (\<lambda>c. \<not> is_ascii_tab_or_newline c) (trim is_c0_control_or_space input)) of
        None \<Rightarrow> Inl invalid_url
      | Some (sch, rest) \<Rightarrow>
          if default_port sch = None then Inl invalid_url
          else parse_special sch (dropWhile is_url_slash rest))"

subsection \<open>\<open>searchParams\<close> and the setters\<close>

text \<open>
  The \<open>application/x-www-form-urlencoded\<close> parser behind \<open>url.searchParams\<close>: the
  query is cut at every \<open>&\<close>, each non-empty piece at its first \<open>=\<close>; in name and
  value \<open>+\<close> becomes a space, percent-escapes are decoded, and the bytes are decoded
  as UTF-8. \<open>get\<close> returns the value of the first pair with the name, or \<open>null\<close>.
\<close>

definition plus_to_space :: "char \<Rightarrow> char" where
  "plus_to_space c = (if c = CHR ''+'' then CHR '' '' else c)"

definition urlencoded_string :: "string \<Rightarrow> string" where
  "urlencoded_string s = utf8_decode (percent_decode (map plus_to_space s))"

definition urlencoded_parse :: "string \<Rightarrow> (string \<times> string) list" where
  "urlencoded_parse q =
     map (\<lambda>piece. (urlencoded_string (takeWhile (\<lambda>c. c \<noteq> CHR ''='') piece),
                   urlencoded_string (drop 1 (dropWhile (\<lambda>c. c \<noteq> CHR ''='') piece))))
       (filter (\<lambda>piece. piece \<noteq> []) (js_split CHR ''&'' q))"

definition searchParams :: "URL \<Rightarrow> (string \<times> string) list" where
  "searchParams u = urlencoded_parse (case query u of None \<Rightarrow> [] | Some q \<Rightarrow> q)"

definition searchParams_get :: "string \<Rightarrow> URL \<Rightarrow> string option" where
  "searchParams_get n u = map_of (searchParams u) n"

text \<open>
  The setters run the parser on the assigned value in one state, after removing tabs
  and newlines from it. In the path and query states entered this way \<open>?\<close> and \<open>#\<close>
  end nothing: they are percent-encoded like any character of the state's set.
\<close>

definition set_pathname :: "string \<Rightarrow> URL \<Rightarrow> URL" where
  "set_pathname v u =
     u\<lparr>segments := parse_path (filter (\<lambda>c. \<not> is_ascii_tab_or_newline c) v)\<rparr>"

definition set_search :: "string \<Rightarrow> URL \<Rightarrow> URL" where
  "set_search v u =
     (if v = [] then u\<lparr>query := None\<rparr>
      else u\<lparr>query :=
             Some (percent_encode special_query_percent_encode_set
                     (filter (\<lambda>c. \<not> is_ascii_tab_or_newline c)
                        (case v of [] \<Rightarrow> [] | c # cs \<Rightarrow> if c = CHR ''?'' then cs else v)))\<rparr>)"

text \<open>
  The \<open>protocol\<close> setter, from one special scheme other than \<open>file\<close> to another (the
  code assigns \<open>https\<close> only): the scheme changes, and a port that is the new scheme's
  default becomes null. A value that is no such scheme leaves the URL as it is.
\<close>

definition set_protocol :: "string \<Rightarrow> URL \<Rightarrow> URL" where
  "set_protocol v u =
     (case parse_scheme (filter (\<lambda>c. \<not> is_ascii_tab_or_newline c) v @ '':'') of
        None \<Rightarrow> u
      | Some (sch, _) \<Rightarrow>
          if default_port sch = None then u
          else u\<lparr>scheme := sch, port := (if port u = default_port sch then None else port u)\<rparr>)"

section \<open>The reader's collaborators\<close>

text \<open>
  \<open>fetch\<close>, \<open>parseGitUri\<close> (the package \<open>git-url-parse\<close>), the configuration reader
  \<open>readAzureIntegrationConfigs\<close> and the tree response factory are not code of this
  file. Each is a parameter of the function that calls it; a call that throws returns
  \<open>Inl\<close>.
\<close>

record AzureIntegrationConfig =
  host :: string
  token :: "string option"

record RequestInit =
  headers :: "(string \<times> string) list"

record Response =
  status :: nat
  statusText :: string
  body :: Buffer

definition ok :: "Response \<Rightarrow> bool" where
  \<comment> \<open>\<open>response.ok\<close>: the status is in the range 200 to 299\<close>
  "ok response = (200 \<le> status response \<and> status response \<le> 299)"

text \<open>
  \<open>response.text()\<close>. The file imports \<open>fetch\<close> from \<open>cross-fetch\<close>, which on Node
  is \<open>node-fetch\<close>; its \<open>text()\<close> is \<open>buffer.toString()\<close> on the bytes of the body:
  they are decoded as UTF-8, an ill-formed sequence becomes U+FFFD, and a leading
  byte order mark is kept as the character U+FEFF.
\<close>

definition text_of :: "Response \<Rightarrow> string" where
  "text_of response = utf8_decode (body response)"

definition Buffer_from :: "string \<Rightarrow> Buffer" where
  \<comment> \<open>\<open>Buffer.from(s)\<close>: the UTF-8 encoding of \<open>s\<close>, which is how \<open>s\<close> is represented\<close>
  "Buffer_from s = s"

record FromArchiveOptions =
  stream :: Buffer
  filter_fn :: "(string \<Rightarrow> bool) option"

record 'r ReadTreeResponseFactory =
  fromZipArchive :: "FromArchiveOptions \<Rightarrow> error + 'r"

record 'r Deps =
  treeResponseFactory :: "'r ReadTreeResponseFactory"

record ReadTreeOptions =
  filter_opt :: "(string \<Rightarrow> bool) option"

record GitUrl =
  name :: string
  owner :: string
  organization :: string
  protocol :: string
  resource :: string
  filepath :: string

type_synonym fetch = "string \<Rightarrow> RequestInit \<Rightarrow> error + Response"

text \<open>What a call does beyond returning: the requests it sends and the archives it hands on.\<close>

datatype event =
    Fetch string RequestInit
  | FromZipArchive FromArchiveOptions

text \<open>\<open>Buffer.toString('base64')\<close>.\<close>

definition base64_char :: "nat \<Rightarrow> char" where
  "base64_char n =
     (if n < 26 then char_of (65 + n)
      else if n < 52 then char_of (71 + n)
      else if n < 62 then char_of (n - 4)
      else if n = 62 then CHR ''+''
      else CHR ''/'')"

fun base64 :: "char list \<Rightarrow> string" where
  "base64 [] = []"
| "base64 [a] =
     [base64_char (byte a div 4), base64_char (byte a mod 4 * 16), CHR ''='', CHR ''='']"
| "base64 [a, b] =
     [base64_char (byte a div 4), base64_char (byte a mod 4 * 16 + byte b div 16),
      base64_char (byte b mod 16 * 4), CHR ''='']"
| "base64 (a # b # c # r) =
     [base64_char (byte a div 4), base64_char (byte a mod 4 * 16 + byte b div 16),
      base64_char (byte b mod 16 * 4 + byte c div 64), base64_char (byte c mod 64)] @ base64 r"

section \<open>\<open>AzureUrlReader.ts\<close>\<close>

subsection \<open>\<open>getDownloadUrl\<close>\<close>

definition getDownloadUrl :: "(string \<Rightarrow> error + GitUrl) \<Rightarrow> string \<Rightarrow> error + URL" where
  "getDownloadUrl parseGitUri url =
     (case parseGitUri url of
        Inl e \<Rightarrow> Inl e
      | Inr parsed \<Rightarrow>
          (let repoName = name parsed;
               project = owner parsed;
               scopePath = (if filepath parsed \<noteq> []
                            then ''&scopePath='' @ encodeURIComponent (filepath parsed)
                            else [])
           in URL_new (protocol parsed @ ''://'' @ resource parsed @ ''/'' @ organization parsed @
                       ''/'' @ project @ ''/_apis/git/repositories/'' @ repoName @
                       ''/items?recursionLevel=full&download=true&api-version=6.0'' @ scopePath)))"

subsection \<open>The class\<close>

record 'r AzureUrlReader =
  options :: AzureIntegrationConfig
  deps :: "'r Deps"

definition AzureUrlReader_new ::
  "AzureIntegrationConfig \<Rightarrow> 'r Deps \<Rightarrow> error + 'r AzureUrlReader" where
  "AzureUrlReader_new opts ds =
     (if host opts \<noteq> ''dev.azure.com'' then
        Inl (Error (''Azure integration currently only supports '' @ [CHR 0x27] @
                    ''dev.azure.com'' @ [CHR 0x27] @ '', tried to use host '' @ [CHR 0x27] @
                    host opts @ [CHR 0x27]))
      else Inr \<lparr>options = opts, deps = ds\<rparr>)"

text \<open>\<open>Array.prototype.map\<close> with a callback that may throw: the first throw ends the map.\<close>

fun map_throwing :: "('a \<Rightarrow> error + 'b) \<Rightarrow> 'a list \<Rightarrow> error + 'b list" where
  "map_throwing f [] = Inr []"
| "map_throwing f (x # xs) =
     (case f x of
        Inl e \<Rightarrow> Inl e
      | Inr y \<Rightarrow> (case map_throwing f xs of Inl e \<Rightarrow> Inl e | Inr ys \<Rightarrow> Inr (y # ys)))"

text \<open>
  \<open>factory\<close>: \<open>getOptionalConfigArray\<close> is the method of the \<open>config\<close> argument,
  \<open>readAzureIntegrationConfigs\<close> the function of the integration package. Each
  result pairs a reader with its predicate on URLs.
\<close>

definition factory ::
  "('c list \<Rightarrow> error + AzureIntegrationConfig list) \<Rightarrow> (string \<Rightarrow> 'c list option) \<Rightarrow>
   'r ReadTreeResponseFactory \<Rightarrow> error + ('r AzureUrlReader \<times> (URL \<Rightarrow> bool)) list" where
  "factory readAzureIntegrationConfigs getOptionalConfigArray trf =
     (case readAzureIntegrationConfigs
             (case getOptionalConfigArray ''integrations.azure'' of None \<Rightarrow> [] | Some a \<Rightarrow> a) of
        Inl e \<Rightarrow> Inl e
      | Inr configs \<Rightarrow>
          map_throwing
            (\<lambda>opts. case AzureUrlReader_new opts \<lparr>treeResponseFactory = trf\<rparr> of
                      Inl e \<Rightarrow> Inl e
                    | Inr reader \<Rightarrow> Inr (reader, \<lambda>url. url_host url = host opts))
            configs)"

definition getRequestOptions ::
  "'r AzureUrlReader \<Rightarrow> (string \<times> string) list option \<Rightarrow> RequestInit" where
  "getRequestOptions this additionalHeaders =
     (let hs = (case additionalHeaders of None \<Rightarrow> [] | Some h \<Rightarrow> h)
      in \<lparr>headers =
            (case token (options this) of
               None \<Rightarrow> hs
             | Some t \<Rightarrow>
                 if t = [] then hs
                 else AList.update ''Authorization'' (''Basic '' @ base64 ('':'' @ t)) hs)\<rparr>)"

text \<open>
  \<open>buildRawUrl\<close>. The five names of the destructuring are \<open>undefined\<close> (\<open>None\<close>) where
  the path has fewer pieces; \<open>ref\<close> is \<open>undefined\<close> when there is no \<open>version\<close>
  parameter. A comparison \<open>x === ''\<close> is false and \<open>x !== '_git'\<close> is true for an
  undefined \<open>x\<close>. Whatever is thrown inside, the \<open>TypeError\<close> of \<open>new URL\<close> included,
  is caught and thrown again as an \<open>Error\<close> whose message starts with
  \<open>Incorrect url\<close>.
\<close>

definition buildRawUrl :: "string \<Rightarrow> error + URL" where
  "buildRawUrl target =
     (case
        (case URL_new target of
           Inl e \<Rightarrow> Inl e
         | Inr url \<Rightarrow>
             (let parts = js_split CHR ''/'' (pathname url);
                  empty = js_index parts 0;
                  userOrOrg = js_index parts 1;
                  project = js_index parts 2;
                  srcKeyword = js_index parts 3;
                  repoName = js_index parts 4;
                  path = (case searchParams_get ''path'' url of None \<Rightarrow> [] | Some p \<Rightarrow> p);
                  ref = map_option (js_substr 2) (searchParams_get ''version'' url)
              in if hostname url \<noteq> ''dev.azure.com'' \<or>
                    empty \<noteq> Some [] \<or>
                    userOrOrg = Some [] \<or>
                    project = Some [] \<or>
                    srcKeyword \<noteq> Some ''_git'' \<or>
                    repoName = Some [] \<or>
                    path = [] \<or>
                    ref = Some []
                 then Inl (Error ''Wrong Azure Devops URL or Invalid file path'')
                 else
                   (let url1 = set_pathname
                                 (js_join ''/''
                                    [empty, userOrOrg, project, Some ''_apis'', Some ''git'',
                                     Some ''repositories'', repoName, Some ''items''])
                                 url;
                        queryParams = [Some (''path='' @ path)] @
                                      (case ref of
                                         None \<Rightarrow> []
                                       | Some r \<Rightarrow> if r = [] then [] else [Some (''version='' @ r)]);
                        url2 = set_search (js_join ''&'' queryParams) url1
                    in Inr (set_protocol ''https'' url2)))) of
        Inl e \<Rightarrow> Inl (Error (''Incorrect url: '' @ target @ '', '' @ error_toString e))
      | Inr url \<Rightarrow> Inr url)"

text \<open>
  \<open>read\<close>. The result is the list of events of the call and what it returns or
  throws. A \<open>fetch\<close> that throws is an event too: the request was issued.
\<close>

definition read :: "'r AzureUrlReader \<Rightarrow> fetch \<Rightarrow> string \<Rightarrow> event list \<times> (error + Buffer)" where
  "read this fetch url =
     (case buildRawUrl url of
        Inl e \<Rightarrow> ([], Inl e)
      | Inr builtUrl \<Rightarrow>
          (let request = Fetch (href builtUrl) (getRequestOptions this None)
           in case fetch (href builtUrl) (getRequestOptions this None) of
                Inl e \<Rightarrow> ([request], Inl (Error (''Unable to read '' @ url @ '', '' @ error_toString e)))
              | Inr response \<Rightarrow>
                  if ok response \<and> status response \<noteq> 203 then
                    ([request], Inr (Buffer_from (text_of response)))
                  else
                    (let message = url @ '' could not be read as '' @ href builtUrl @ '', '' @
                                   string_of_nat (status response) @ '' '' @ statusText response
                     in if status response = 404 then ([request], Inl (NotFoundError message))
                        else ([request], Inl (Error message)))))"

text \<open>
  \<open>readTree\<close>. Nothing is caught here: what \<open>getDownloadUrl\<close>, \<open>fetch\<close> or the
  factory throws is thrown on.
\<close>

definition readTree ::
  "'r AzureUrlReader \<Rightarrow> fetch \<Rightarrow> (string \<Rightarrow> error + GitUrl) \<Rightarrow> string \<Rightarrow>
   ReadTreeOptions option \<Rightarrow> event list \<times> (error + 'r)" where
  "readTree this fetch parseGitUri url opts =
     (case getDownloadUrl parseGitUri url of
        Inl e \<Rightarrow> ([], Inl e)
      | Inr downloadUrl \<Rightarrow>
          (let init = getRequestOptions this (Some [(''Accept'', ''application/zip'')]);
               request = Fetch (href downloadUrl) init
           in case fetch (href downloadUrl) init of
                Inl e \<Rightarrow> ([request], Inl e)
              | Inr response \<Rightarrow>
                  if \<not> ok response then
                    (let message = ''Failed to read tree from '' @ url @ '', '' @
                                   string_of_nat (status response) @ '' '' @ statusText response
                     in if status response = 404 then ([request], Inl (NotFoundError message))
                        else ([request], Inl (Error message)))
                  else
                    (let archive = \<lparr>stream = body response,
                                    filter_fn = (case opts of None \<Rightarrow> None | Some ro \<Rightarrow> filter_opt ro)\<rparr>
                     in ([request, FromZipArchive archive],
                         fromZipArchive (treeResponseFactory (deps this)) archive))))"

definition toString :: "'r AzureUrlReader \<Rightarrow> string" where
  "toString this =
     ''azure{host='' @ host (options this) @ '',authed='' @
     (case token (options this) of
        None \<Rightarrow> ''false''
      | Some t \<Rightarrow> if t = [] then ''false'' else ''true'') @ ''}''"

section \<open>Well-formed inputs and examples\<close>

text \<open>
  The characters that every state of the URL parser and the form decoder leave as
  they are: ASCII letters and digits, \<open>-\<close>, \<open>_\<close>, \<open>.\<close> and \<open>~\<close>. A plain segment
  is a non-empty path segment of such characters other than \<open>.\<close> and \<open>..\<close>; a plain
  value is a non-empty query value of such characters and slashes.
\<close>

definition is_plain_char :: "char \<Rightarrow> bool" where
  "is_plain_char c =
     (is_ascii_alphanumeric c \<or> c = CHR ''-'' \<or> c = CHR ''_'' \<or> c = CHR ''.'' \<or> c = CHR ''~'')"

definition plain_segment :: "string \<Rightarrow> bool" where
  "plain_segment s = (s \<noteq> [] \<and> list_all is_plain_char s \<and> s \<noteq> ''.'' \<and> s \<noteq> ''..'')"

definition plain_value :: "string \<Rightarrow> bool" where
  "plain_value s = (s \<noteq> [] \<and> list_all (\<lambda>c. is_plain_char c \<or> c = CHR ''/'') s)"

text \<open>
  A plain host is a host name that the host parser leaves as it is written: it is not
  empty, its characters are lowercase ASCII letters, digits, \<open>-\<close>, \<open>.\<close> and \<open>_\<close>,
  its last label does not start with a digit, and none of its labels starts with
  \<open>xn--\<close>.
\<close>

definition plain_host :: "string \<Rightarrow> bool" where
  "plain_host h =
     (h \<noteq> [] \<and>
      list_all (\<lambda>c. is_ascii_lower_alpha c \<or> is_ascii_digit c \<or>
                     c = CHR ''-'' \<or> c = CHR ''.'' \<or> c = CHR ''_'') h \<and>
      \<not> ends_in_a_number h \<and> \<not> has_punycode_label h)"

text \<open>A reader for the supported host, and collaborators with fixed answers.\<close>

definition example_reader :: "unit AzureUrlReader" where
  "example_reader =
     \<lparr>options = \<lparr>host = ''dev.azure.com'', token = None\<rparr>,
      deps = \<lparr>treeResponseFactory = \<lparr>fromZipArchive = (\<lambda>archive. Inr ())\<rparr>\<rparr>\<rparr>"

definition responding :: "nat \<Rightarrow> string \<Rightarrow> Buffer \<Rightarrow> fetch" where
  "responding st txt b = (\<lambda>url init. Inr \<lparr>status = st, statusText = txt, body = b\<rparr>)"

definition example_parseGitUri :: "string \<Rightarrow> error + GitUrl" where
  \<comment> \<open>what \<open>parseGitUri\<close> answers for a URL of repository \<open>r\<close> of project \<open>p\<close> of
     organization \<open>o\<close> with path \<open>docs\<close>\<close>
  "example_parseGitUri url =
     Inr \<lparr>name = ''r'', owner = ''p'', organization = ''o'', protocol = ''https'',
          resource = ''dev.azure.com'', filepath = ''docs''\<rparr>"

definition example_configs :: "AzureIntegrationConfig list" where
  "example_configs =
     [\<lparr>host = ''dev.azure.com'', token = None\<rparr>,
      \<lparr>host = ''dev.azure.com'', token = Some ''secret''\<rparr>]"

definition example_url :: "string \<Rightarrow> nat option \<Rightarrow> URL" where
  "example_url h p =
     \<lparr>scheme = ''https'', username = [], password = [], hostname = h, port = p,
      segments = [''o'', ''p'', ''_git'', ''r''], query = None, fragment = None\<rparr>"

definition example_parseGitUri_path :: "string \<Rightarrow> string \<Rightarrow> error + GitUrl" where
  "example_parseGitUri_path fp url =
     Inr \<lparr>name = ''r'', owner = ''p'', organization = ''o'', protocol = ''https'',
          resource = ''dev.azure.com'', filepath = fp\<rparr>"

definition example_parseGitUri_organization :: "string \<Rightarrow> string \<Rightarrow> error + GitUrl" where
  \<comment> \<open>what \<open>parseGitUri\<close> answers for a URL of repository \<open>r\<close> of project \<open>p\<close> of the
     organization given, with no path\<close>
  "example_parseGitUri_organization org url =
     Inr \<lparr>name = ''r'', owner = ''p'', organization = org, protocol = ''https'',
          resource = ''dev.azure.com'', filepath = []\<rparr>"

section \<open>Facts about strings and the URL parser\<close>

lemmas char_class_defs =
  is_plain_char_def is_ascii_alphanumeric_def is_ascii_alpha_def is_ascii_upper_alpha_def
  is_ascii_lower_alpha_def is_ascii_digit_def byte_def

lemma plain_char_facts:
  assumes "is_plain_char c"
  shows "32 < byte c" "byte c < 128"
    "c \<noteq> CHR ''/''" "c \<noteq> CHR ''?''" "c \<noteq> CHR ''#''" "c \<noteq> CHR ''%''" "c \<noteq> CHR ''+''"
    "c \<noteq> CHR ''&''" "c \<noteq> CHR ''=''" "c \<noteq> CHR '':''" "c \<noteq> CHR ''@''"
    "\<not> is_url_slash c" "\<not> is_authority_end c"
    "\<not> path_percent_encode_set c" "\<not> special_query_percent_encode_set c"
    "\<not> is_ascii_tab_or_newline c" "\<not> is_c0_control_or_space c"
  using assms
  by (auto simp: char_class_defs is_url_slash_def is_authority_end_def path_percent_encode_set_def
      special_query_percent_encode_set_def query_percent_encode_set_def
      c0_control_percent_encode_set_def is_ascii_tab_or_newline_def is_c0_control_or_space_def)


lemma dropWhile_none: "\<forall>c\<in>set s. \<not> P c \<Longrightarrow> dropWhile P s = s"
  by (cases s) auto

lemma trim_id: "\<forall>c\<in>set s. \<not> sp c \<Longrightarrow> trim sp s = s"
  by (simp add: trim_def dropWhile_none)

lemma split_where_no_sep: "\<forall>c\<in>set s. \<not> sep c \<Longrightarrow> split_where sep s = [s]"
  by (induction s) auto

lemma split_where_append:
  "\<forall>c\<in>set s. \<not> sep c \<Longrightarrow> sep d \<Longrightarrow> split_where sep (s @ d # r) = s # split_where sep r"
  by (induction s) auto

lemma split_where_segments:
  assumes "\<forall>s\<in>set S. \<forall>c\<in>set s. \<not> sep c" and "sep (CHR ''/'')"
  shows "split_where sep (concat (map ((#) CHR ''/'') S)) = [] # S"
  using assms(1)
proof (induction S)
  case Nil
  then show ?case by simp
next
  case (Cons a S)
  show ?case
  proof (cases S)
    case Nil
    with Cons.prems assms(2) show ?thesis by (simp add: split_where_no_sep)
  next
    case (Cons b T)
    with Cons.prems Cons.IH assms(2) show ?thesis
      by (simp add: split_where_append)
  qed
qed

lemma percent_encode_id: "\<forall>c\<in>set s. \<not> E c \<Longrightarrow> percent_encode E s = s"
  by (induction s) (auto simp: percent_encode_def)

lemma byte_ascii_lowercase:
  "byte (ascii_lowercase c) = (if is_ascii_upper_alpha c then byte c + 32 else byte c)"
  by (simp add: ascii_lowercase_def byte_def is_ascii_upper_alpha_def)

lemma byte_eq_iff: "(c = d) = (byte c = byte d)"
  by (simp add: byte_def)

lemma ascii_lowercase_plain:
  assumes "is_plain_char c"
  shows "ascii_lowercase c \<noteq> CHR ''%''" "(ascii_lowercase c = CHR ''.'') = (c = CHR ''.'')"
proof -
  have b: "byte (ascii_lowercase c) = (if 65 \<le> byte c \<and> byte c \<le> 90 then byte c + 32 else byte c)"
    by (simp add: byte_ascii_lowercase is_ascii_upper_alpha_def)
  have e: "\<And>d. (ascii_lowercase c = d) = (byte (ascii_lowercase c) = byte d)"
    by (simp add: byte_def)
  show "ascii_lowercase c \<noteq> CHR ''%''"
    unfolding e b using assms by (auto simp: char_class_defs is_plain_char_def)
  show "(ascii_lowercase c = CHR ''.'') = (c = CHR ''.'')"
    unfolding e b using assms by (auto simp: char_class_defs is_plain_char_def)
qed

lemma plain_segment_not_dot:
  assumes "plain_segment s"
  shows "\<not> is_single_dot s" "\<not> is_double_dot s"
  using assms
  by (auto simp: plain_segment_def is_single_dot_def is_double_dot_def map_eq_Cons_conv
      list_all_iff ascii_lowercase_plain)

lemma plain_segment_encode:
  "plain_segment s \<Longrightarrow> percent_encode path_percent_encode_set s = s"
  by (rule percent_encode_id) (simp add: plain_segment_def list_all_iff plain_char_facts)

lemma path_state_plain: "\<forall>s\<in>set S. plain_segment s \<Longrightarrow> path_state acc S = acc @ S"
  by (induction acc S rule: path_state.induct)
     (simp_all add: plain_segment_not_dot plain_segment_encode)

lemma parse_path_segments:
  assumes "S \<noteq> []" and "\<forall>s\<in>set S. plain_segment s"
  shows "parse_path (concat (map ((#) CHR ''/'') S)) = S"
proof -
  obtain a T where S: "S = a # T" using assms(1) by (cases S) auto
  have "\<forall>s\<in>set S. \<forall>c\<in>set s. \<not> is_url_slash c"
    using assms(2) by (auto simp: plain_segment_def list_all_iff plain_char_facts)
  then have "split_where is_url_slash (concat (map ((#) CHR ''/'') S)) = [] # S"
    by (rule split_where_segments) (simp add: is_url_slash_def)
  then have "split_where is_url_slash (a @ concat (map ((#) CHR ''/'') T)) = S"
    by (simp add: S is_url_slash_def)
  then show ?thesis
    using assms(2) by (simp add: parse_path_def S is_url_slash_def path_state_plain)
qed

lemma percent_decode_id: "CHR ''%'' \<notin> set s \<Longrightarrow> percent_decode s = s"
  by (induction s rule: percent_decode.induct) auto

lemma utf8_decode_ascii: "\<forall>c\<in>set s. byte c < 128 \<Longrightarrow> utf8_decode s = s"
  by (induction s) auto

lemma urlencoded_string_plain:
  assumes "\<forall>c\<in>set s. is_plain_char c \<or> c = CHR ''/''"
  shows "urlencoded_string s = s"
proof -
  have a: "\<forall>c\<in>set s. c \<noteq> CHR ''+'' \<and> c \<noteq> CHR ''%'' \<and> byte c < 128"
  proof
    fix c assume "c \<in> set s"
    with assms have "is_plain_char c \<or> c = CHR ''/''" by blast
    then show "c \<noteq> CHR ''+'' \<and> c \<noteq> CHR ''%'' \<and> byte c < 128"
      by (elim disjE) (simp_all add: plain_char_facts, simp add: byte_def)
  qed
  then have "map plus_to_space s = s"
    by (simp add: map_idI plus_to_space_def)
  moreover have "percent_decode s = s"
    using a by (intro percent_decode_id) blast
  moreover have "utf8_decode s = s"
    using a by (intro utf8_decode_ascii) blast
  ultimately show ?thesis
    by (simp add: urlencoded_string_def)
qed

lemma plain_host_char_facts:
  assumes "is_plain_host_char c"
  shows "32 < byte c" "\<not> is_authority_end c" "\<not> is_url_slash c" "c \<noteq> CHR '':''" "c \<noteq> CHR ''@''"
  using assms
  by (auto simp: char_class_defs is_plain_host_char_def is_url_slash_def is_authority_end_def)

lemma span_stop:
  assumes "\<forall>c\<in>set xs. P c" and "ys = [] \<or> \<not> P (hd ys)"
  shows "takeWhile P (xs @ ys) = xs" "dropWhile P (xs @ ys) = ys"
  using assms by (induction xs) (auto simp: takeWhile_eq_Nil_iff dropWhile_eq_self_iff)

lemma parse_scheme_http:
  "parse_scheme (''https://'' @ r) = Some (''https'', ''//'' @ r)"
  "parse_scheme (''http://'' @ r) = Some (''http'', ''//'' @ r)"
  by (simp_all add: parse_scheme_def is_scheme_char_def char_class_defs ascii_lowercase_def)

lemma default_port_http: "default_port ''https'' = Some 443" "default_port ''http'' = Some 80"
  by (simp_all add: default_port_def)

lemma parse_port_empty: "parse_port sch [] = Some None"
  by (simp add: parse_port_def)

lemma pathname_chars:
  assumes "\<forall>s\<in>set S. plain_segment s"
  shows "\<forall>c\<in>set (concat (map ((#) CHR ''/'') S)). is_plain_char c \<or> c = CHR ''/''"
  using assms by (auto simp: plain_segment_def list_all_iff)

lemma trim_visible: "\<forall>c\<in>set s. 32 < byte c \<Longrightarrow> trim is_c0_control_or_space s = s"
  by (rule trim_id) (simp add: is_c0_control_or_space_def not_le)

lemma filter_visible:
  "\<forall>c\<in>set s. 32 < byte c \<Longrightarrow> filter (\<lambda>c. \<not> is_ascii_tab_or_newline c) s = s"
  by (rule filter_True) (fastforce simp: is_ascii_tab_or_newline_def)

lemma URL_new_plain:
  assumes sch: "sch = ''https'' \<or> sch = ''http''"
    and H: "parse_host H = Some H"
    and S: "S \<noteq> []" "\<forall>s\<in>set S. plain_segment s"
    and Q: "\<forall>c\<in>set Q. 32 < byte c \<and> c \<noteq> CHR ''#''"
  shows "URL_new (sch @ ''://'' @ H @ concat (map ((#) CHR ''/'') S) @ CHR ''?'' # Q) =
         Inr \<lparr>scheme = sch, username = [], password = [], hostname = H, port = None,
              segments = S,
              query = Some (percent_encode special_query_percent_encode_set Q),
              fragment = None\<rparr>"
proof -
  define P where "P = concat (map ((#) CHR ''/'') S)"
  define R where "R = H @ P @ CHR ''?'' # Q"
  have Hne: "H \<noteq> []" and Hc: "\<forall>c\<in>set H. is_plain_host_char c"
    using H by (auto simp: parse_host_def list_all_iff split: if_splits)
  have Pc: "\<forall>c\<in>set P. is_plain_char c \<or> c = CHR ''/''"
    unfolding P_def using S(2) by (rule pathname_chars)
  obtain a T where SaT: "S = a # T" using S(1) by (cases S) auto
  have Phd: "P \<noteq> []" "hd P = CHR ''/''" by (simp_all add: P_def SaT)
  have big: "\<forall>c\<in>set R. 32 < byte c"
  proof
    fix c assume "c \<in> set R"
    then consider "c \<in> set H" | "c \<in> set P" | "c = CHR ''?''" | "c \<in> set Q"
      by (auto simp: R_def)
    then show "32 < byte c"
    proof cases
      case 1
      with Hc show ?thesis by (simp add: plain_host_char_facts)
    next
      case 2
      with Pc have "is_plain_char c \<or> c = CHR ''/''" by blast
      then show ?thesis by (elim disjE) (simp_all add: plain_char_facts, simp add: byte_def)
    next
      case 3
      then show ?thesis by (simp add: byte_def)
    next
      case 4
      with Q show ?thesis by blast
    qed
  qed
  have lit: "\<forall>c\<in>set (sch @ ''://''). 32 < byte c"
    using sch by (auto simp: byte_def)
  have sbig: "\<forall>c\<in>set (sch @ ''://'' @ R). 32 < byte c"
    using lit big by auto
  have t1: "trim is_c0_control_or_space (sch @ ''://'' @ R) = sch @ ''://'' @ R"
    using sbig by (rule trim_visible)
  have t2: "filter (\<lambda>c. \<not> is_ascii_tab_or_newline c) (sch @ ''://'' @ R) = sch @ ''://'' @ R"
    using sbig by (rule filter_visible)
  have t3: "parse_scheme (sch @ ''://'' @ R) = Some (sch, ''//'' @ R)"
    using sch parse_scheme_http [of R] by auto
  have t4: "default_port sch \<noteq> None"
    using sch default_port_http by auto
  have Rhd: "\<not> is_url_slash (hd R)"
    using Hne Hc by (cases H) (auto simp: R_def plain_host_char_facts)
  have Rne: "R \<noteq> []" using Hne by (simp add: R_def)
  have t5: "dropWhile is_url_slash (''//'' @ R) = R"
    using Rhd Rne by (simp add: is_url_slash_def dropWhile_eq_self_iff)
  have stop1: "P @ CHR ''?'' # Q = [] \<or> \<not> \<not> is_authority_end (hd (P @ CHR ''?'' # Q))"
    using Phd by (simp add: is_authority_end_def is_url_slash_def)
  have Hc1: "\<forall>c\<in>set H. \<not> is_authority_end c"
    using Hc by (simp add: plain_host_char_facts)
  have a1: "takeWhile (\<lambda>c. \<not> is_authority_end c) R = H"
    unfolding R_def using Hc1 stop1 by (rule span_stop(1))
  have a2: "dropWhile (\<lambda>c. \<not> is_authority_end c) R = P @ CHR ''?'' # Q"
    unfolding R_def using Hc1 stop1 by (rule span_stop(2))
  have "CHR ''@'' \<notin> set H"
    using Hc plain_host_char_facts(5) by blast
  then have a3: "split_credentials H = (None, H)"
    by (simp add: split_credentials_def)
  have "\<forall>c\<in>set H. c \<noteq> CHR '':''"
    using Hc plain_host_char_facts(4) by blast
  then have a4: "takeWhile (\<lambda>c. c \<noteq> CHR '':'') H = H" "dropWhile (\<lambda>c. c \<noteq> CHR '':'') H = []"
    by simp_all
  have Pc1: "\<forall>c\<in>set P. c \<noteq> CHR ''?'' \<and> c \<noteq> CHR ''#''"
  proof
    fix c assume "c \<in> set P"
    with Pc have "is_plain_char c \<or> c = CHR ''/''" by blast
    then show "c \<noteq> CHR ''?'' \<and> c \<noteq> CHR ''#''"
      by (elim disjE) (simp_all add: plain_char_facts)
  qed
  have stop2: "CHR ''?'' # Q = [] \<or> \<not> (hd (CHR ''?'' # Q) \<noteq> CHR ''?'' \<and> hd (CHR ''?'' # Q) \<noteq> CHR ''#'')"
    by simp
  have p1: "takeWhile (\<lambda>c. c \<noteq> CHR ''?'' \<and> c \<noteq> CHR ''#'') (P @ CHR ''?'' # Q) = P"
    using Pc1 stop2 by (rule span_stop(1))
  have p2: "dropWhile (\<lambda>c. c \<noteq> CHR ''?'' \<and> c \<noteq> CHR ''#'') (P @ CHR ''?'' # Q) = CHR ''?'' # Q"
    using Pc1 stop2 by (rule span_stop(2))
  have p3: "parse_path P = S"
    unfolding P_def using S by (rule parse_path_segments)
  have "\<forall>c\<in>set Q. c \<noteq> CHR ''#''"
    using Q by blast
  then have q1: "takeWhile (\<lambda>c. c \<noteq> CHR ''#'') Q = Q" "dropWhile (\<lambda>c. c \<noteq> CHR ''#'') Q = []"
    by simp_all
  have q2: "parse_query_fragment (CHR ''?'' # Q) =
              (Some (percent_encode special_query_percent_encode_set Q), None)"
    by (simp add: parse_query_fragment_def q1)
  have "parse_special sch R =
         Inr \<lparr>scheme = sch, username = [], password = [], hostname = H, port = None,
              segments = S,
              query = Some (percent_encode special_query_percent_encode_set Q),
              fragment = None\<rparr>"
    by (simp add: parse_special_def a1 a2 a3 a4 p1 p2 p3 q2 H parse_port_empty)
  then have "URL_new (sch @ ''://'' @ R) =
         Inr \<lparr>scheme = sch, username = [], password = [], hostname = H, port = None,
              segments = S,
              query = Some (percent_encode special_query_percent_encode_set Q),
              fragment = None\<rparr>"
    using t4 by (simp only: URL_new_def t1 t2 t3 t5 option.case prod.case if_False)
  then show ?thesis by (simp add: R_def P_def)
qed

lemma value_char_facts:
  assumes "is_plain_char c \<or> c = CHR ''/''"
  shows "32 < byte c" "\<not> special_query_percent_encode_set c" "c \<noteq> CHR ''&''" "c \<noteq> CHR ''=''"
    "c \<noteq> CHR ''#''" "c \<noteq> CHR ''?''"
  using assms
  by (elim disjE; simp add: plain_char_facts;
      simp add: byte_def special_query_percent_encode_set_def query_percent_encode_set_def
        c0_control_percent_encode_set_def)+

lemma plain_value_facts:
  assumes "plain_value s"
  shows "s \<noteq> []" "\<forall>c\<in>set s. 32 < byte c" "\<forall>c\<in>set s. \<not> special_query_percent_encode_set c"
    "\<forall>c\<in>set s. c \<noteq> CHR ''&''" "\<forall>c\<in>set s. c \<noteq> CHR ''=''" "\<forall>c\<in>set s. c \<noteq> CHR ''#''"
    "\<forall>c\<in>set s. is_plain_char c \<or> c = CHR ''/''"
  using assms value_char_facts by (auto simp: plain_value_def list_all_iff)

lemma urlencoded_string_literals:
  "urlencoded_string ''path'' = ''path''" "urlencoded_string ''version'' = ''version''"
  by (rule urlencoded_string_plain; simp add: is_plain_char_def char_class_defs)+

lemma urlencoded_parse_path:
  assumes "plain_value F"
  shows "urlencoded_parse (''path='' @ F) = [(''path'', F)]"
proof -
  have "\<forall>c\<in>set (''path='' @ F). \<not> c = CHR ''&''"
    using plain_value_facts(4) [OF assms] by simp
  then have "js_split CHR ''&'' (''path='' @ F) = [''path='' @ F]"
    unfolding js_split_def by (rule split_where_no_sep)
  then show ?thesis
    using plain_value_facts(7) [OF assms]
    by (simp add: urlencoded_parse_def urlencoded_string_literals urlencoded_string_plain)
qed

lemma urlencoded_parse_path_version:
  assumes "plain_value F" and "plain_value X"
  shows "urlencoded_parse (''path='' @ F @ ''&version=GB'' @ X) =
           [(''path'', F), (''version'', ''GB'' @ X)]"
proof -
  have 1: "\<forall>c\<in>set (''path='' @ F). \<not> c = CHR ''&''"
    using plain_value_facts(4) [OF assms(1)] by simp
  have 2: "\<forall>c\<in>set (''version=GB'' @ X). \<not> c = CHR ''&''"
    using plain_value_facts(4) [OF assms(2)] by simp
  have "split_where (\<lambda>c. c = CHR ''&'') ((''path='' @ F) @ CHR ''&'' # (''version=GB'' @ X)) =
          (''path='' @ F) # split_where (\<lambda>c. c = CHR ''&'') (''version=GB'' @ X)"
    using 1 by (rule split_where_append) simp
  also have "split_where (\<lambda>c. c = CHR ''&'') (''version=GB'' @ X) = [''version=GB'' @ X]"
    using 2 by (rule split_where_no_sep)
  finally have "js_split CHR ''&'' (''path='' @ F @ ''&version=GB'' @ X) =
                  [''path='' @ F, ''version=GB'' @ X]"
    by (simp add: js_split_def)
  moreover have "urlencoded_string (''GB'' @ X) = ''GB'' @ X"
    by (rule urlencoded_string_plain)
       (use plain_value_facts(7) [OF assms(2)] in \<open>auto simp: is_plain_char_def char_class_defs\<close>)
  ultimately show ?thesis
    using plain_value_facts(7) [OF assms(1)]
    by (simp add: urlencoded_parse_def urlencoded_string_literals urlencoded_string_plain)
qed

lemma js_substr_GB: "js_substr 2 (CHR ''G'' # CHR ''B'' # X) = X"
  by (simp add: numeral_2_eq_2 utf8_length_def byte_def)


lemma parse_host_azure: "parse_host ''dev.azure.com'' = Some ''dev.azure.com''"
  by code_simp

lemma plain_segment_literals:
  "plain_segment ''_git''" "plain_segment ''_apis''" "plain_segment ''git''"
  "plain_segment ''repositories''" "plain_segment ''items''"
  by (simp_all add: plain_segment_def is_plain_char_def char_class_defs)

lemma plain_segment_chars: "plain_segment s \<Longrightarrow> \<forall>c\<in>set s. \<not> c = CHR ''/''"
  using plain_char_facts(3) by (auto simp: plain_segment_def list_all_iff)

lemma js_split_pathname:
  assumes "\<forall>s\<in>set S. plain_segment s"
  shows "js_split CHR ''/'' (pathname \<lparr>scheme = a, username = b, password = c, hostname = d,
           port = e, segments = S, query = f, fragment = g\<rparr>) = [] # S"
  unfolding js_split_def pathname_def URL.simps
  by (rule split_where_segments) (use assms plain_segment_chars in auto)

lemma set_pathname_segments:
  assumes "S \<noteq> []" and "\<forall>s\<in>set S. plain_segment s"
  shows "set_pathname (concat (map ((#) CHR ''/'') S)) u = u\<lparr>segments := S\<rparr>"
proof -
  have "\<forall>c\<in>set (concat (map ((#) CHR ''/'') S)). 32 < byte c"
  proof
    fix c assume "c \<in> set (concat (map ((#) CHR ''/'') S))"
    with pathname_chars [OF assms(2)] have "is_plain_char c \<or> c = CHR ''/''" by blast
    then show "32 < byte c" by (rule value_char_facts)
  qed
  then show ?thesis
    using assms by (simp add: set_pathname_def filter_visible parse_path_segments)
qed

lemma set_search_visible:
  assumes "v \<noteq> []" and "hd v \<noteq> CHR ''?''"
    and "\<forall>c\<in>set v. 32 < byte c" and "\<forall>c\<in>set v. \<not> special_query_percent_encode_set c"
  shows "set_search v u = u\<lparr>query := Some v\<rparr>"
proof -
  have "(case v of [] \<Rightarrow> [] | c # cs \<Rightarrow> if c = CHR ''?'' then cs else v) = v"
    using assms(1,2) by (cases v) simp_all
  then show ?thesis
    using assms by (simp add: set_search_def filter_visible percent_encode_id)
qed

lemma set_protocol_https:
  "set_protocol ''https'' u = u\<lparr>scheme := ''https'', port := (if port u = Some 443 then None else port u)\<rparr>"
  by (simp add: set_protocol_def parse_scheme_def is_scheme_char_def char_class_defs
      ascii_lowercase_def is_ascii_tab_or_newline_def default_port_def)


lemma URL_new_azure:
  assumes "plain_segment org" "plain_segment proj" "plain_segment repo"
    and Q: "\<forall>c\<in>set Q. 32 < byte c" "\<forall>c\<in>set Q. c \<noteq> CHR ''#''"
      "\<forall>c\<in>set Q. \<not> special_query_percent_encode_set c"
  shows "URL_new (''https://dev.azure.com/'' @ org @ ''/'' @ proj @ ''/_git/'' @ repo @ ''?'' @ Q) =
         Inr \<lparr>scheme = ''https'', username = [], password = [], hostname = ''dev.azure.com'',
              port = None, segments = [org, proj, ''_git'', repo], query = Some Q,
              fragment = None\<rparr>"
proof -
  have "URL_new (''https'' @ ''://'' @ ''dev.azure.com'' @
                 concat (map ((#) CHR ''/'') [org, proj, ''_git'', repo]) @ CHR ''?'' # Q) =
        Inr \<lparr>scheme = ''https'', username = [], password = [], hostname = ''dev.azure.com'',
             port = None, segments = [org, proj, ''_git'', repo],
             query = Some (percent_encode special_query_percent_encode_set Q), fragment = None\<rparr>"
    by (rule URL_new_plain) (use assms plain_segment_literals parse_host_azure in auto)
  then show ?thesis
    using Q(3) by (simp add: percent_encode_id)
qed

lemma js_join_slash:
  "js_join ''/'' [Some [], Some a, Some b, Some c, Some d, Some e, Some f, Some g] =
     concat (map ((#) CHR ''/'') [a, b, c, d, e, f, g])"
  by simp

lemma js_join_amp:
  "js_join ''&'' [Some a, Some b] = a @ ''&'' @ b" "js_join ''&'' [Some a] = a"
  by simp_all

lemma href_azure:
  "href \<lparr>scheme = ''https'', username = [], password = [], hostname = ''dev.azure.com'',
         port = None, segments = [a, b, ''_apis'', ''git'', ''repositories'', c, ''items''],
         query = Some q, fragment = None\<rparr> =
   ''https://dev.azure.com/'' @ a @ ''/'' @ b @ ''/_apis/git/repositories/'' @ c @ ''/items?'' @ q"
  by (simp add: href_def url_host_def pathname_def)

lemma buildRawUrl_path_version:
  assumes "plain_segment org" "plain_segment proj" "plain_segment repo"
    and "plain_value F" "plain_value X"
  shows "buildRawUrl (''https://dev.azure.com/'' @ org @ ''/'' @ proj @ ''/_git/'' @ repo @
                      ''?path='' @ F @ ''&version=GB'' @ X) =
         Inr \<lparr>scheme = ''https'', username = [], password = [], hostname = ''dev.azure.com'',
              port = None, segments = [org, proj, ''_apis'', ''git'', ''repositories'', repo, ''items''],
              query = Some (''path='' @ F @ ''&version='' @ X), fragment = None\<rparr>"
proof -
  define Q where "Q = ''path='' @ F @ ''&version=GB'' @ X"
  define u where "u = \<lparr>scheme = ''https'', username = [], password = [], hostname = ''dev.azure.com'',
              port = None, segments = [org, proj, ''_git'', repo], query = Some Q,
              fragment = None\<rparr>"
  note fF = plain_value_facts [OF assms(4)] and fX = plain_value_facts [OF assms(5)]
  have q1: "\<forall>c\<in>set Q. 32 < byte c"
    using fF(2) fX(2) by (auto simp: Q_def byte_def)
  have q2: "\<forall>c\<in>set Q. c \<noteq> CHR ''#''"
    using fF(6) fX(6) by (auto simp: Q_def)
  have q3: "\<forall>c\<in>set Q. \<not> special_query_percent_encode_set c"
    using fF(3) fX(3)
    by (auto simp: Q_def special_query_percent_encode_set_def query_percent_encode_set_def
        c0_control_percent_encode_set_def byte_def)
  have parse: "URL_new (''https://dev.azure.com/'' @ org @ ''/'' @ proj @ ''/_git/'' @ repo @
                      ''?path='' @ F @ ''&version=GB'' @ X) = Inr u"
    using URL_new_azure [OF assms(1-3) q1 q2 q3] by (simp add: Q_def u_def)
  have parts: "js_split CHR ''/'' (pathname u) = [[], org, proj, ''_git'', repo]"
    unfolding u_def by (rule js_split_pathname) (use assms plain_segment_literals in auto)
  have sp: "searchParams u = [(''path'', F), (''version'', ''GB'' @ X)]"
    using urlencoded_parse_path_version [OF assms(4,5)] by (simp add: searchParams_def u_def Q_def)
  have ne: "org \<noteq> []" "proj \<noteq> []" "repo \<noteq> []" "F \<noteq> []" "X \<noteq> []"
    using assms by (auto simp: plain_segment_def plain_value_def)
  define v where "v = ''path='' @ F @ ''&version='' @ X"
  have v1: "\<forall>c\<in>set v. 32 < byte c"
    using fF(2) fX(2) by (auto simp: v_def byte_def)
  have v3: "\<forall>c\<in>set v. \<not> special_query_percent_encode_set c"
    using fF(3) fX(3)
    by (auto simp: v_def special_query_percent_encode_set_def query_percent_encode_set_def
        c0_control_percent_encode_set_def byte_def)
  have ss: "\<And>w. set_search v w = w\<lparr>query := Some v\<rparr>"
    by (rule set_search_visible) (use v1 v3 in \<open>auto simp: v_def\<close>)
  have segs: "\<And>w. set_pathname (concat (map ((#) CHR ''/'')
                  [org, proj, ''_apis'', ''git'', ''repositories'', repo, ''items''])) w =
               w\<lparr>segments := [org, proj, ''_apis'', ''git'', ''repositories'', repo, ''items'']\<rparr>"
    by (rule set_pathname_segments) (use assms plain_segment_literals in auto)
  have hu: "hostname u = ''dev.azure.com''" "port u = None"
    by (simp_all add: u_def)
  have "buildRawUrl (''https://dev.azure.com/'' @ org @ ''/'' @ proj @ ''/_git/'' @ repo @
                      ''?path='' @ F @ ''&version=GB'' @ X) =
        Inr (u\<lparr>segments := [org, proj, ''_apis'', ''git'', ''repositories'', repo, ''items''],
               query := Some v, scheme := ''https'', port := None\<rparr>)"
    unfolding buildRawUrl_def parse
    by (simp add: parts sp js_index_def searchParams_get_def js_substr_GB ne Let_def hu
        js_join_slash js_join_amp segs ss [unfolded v_def, simplified] set_protocol_https v_def
        del: js_join.simps concat.simps list.map)
  then show ?thesis
    by (simp add: u_def v_def)
qed

section \<open>Evaluating the model on one URL\<close>

lemma string_of_nat_examples:
  "string_of_nat 203 = ''203''" "string_of_nat 404 = ''404''" "string_of_nat 500 = ''500''"
  by code_simp+

lemma buildRawUrl_example:
  "buildRawUrl ''https://dev.azure.com/o/p/_git/r?path=f&version=GBx'' =
     Inr \<lparr>scheme = ''https'', username = [], password = [], hostname = ''dev.azure.com'',
          port = None, segments = [''o'', ''p'', ''_apis'', ''git'', ''repositories'', ''r'', ''items''],
          query = Some ''path=f&version=x'', fragment = None\<rparr>"
  by code_simp

lemma href_example:
  "href \<lparr>scheme = ''https'', username = [], password = [], hostname = ''dev.azure.com'',
         port = None, segments = [''o'', ''p'', ''_apis'', ''git'', ''repositories'', ''r'', ''items''],
         query = Some ''path=f&version=x'', fragment = None\<rparr> =
   ''https://dev.azure.com/o/p/_apis/git/repositories/r/items?path=f&version=x''"
  by (simp add: href_def url_host_def pathname_def)

lemma getRequestOptions_example: "getRequestOptions example_reader None = \<lparr>headers = []\<rparr>"
  by (simp add: getRequestOptions_def example_reader_def)

section \<open>The claims\<close>

subsection \<open>The derived URL of \<open>read\<close>\<close>

lemma fst_read:
  "buildRawUrl url = Inr builtUrl \<Longrightarrow>
   fst (read this fetch url) = [Fetch (href builtUrl) (getRequestOptions this None)]"
  by (simp add: read_def Let_def split: sum.splits)

text \<open>
  Claim C1, as amended. For every organization, project and repository that are plain
  segments, and every file path and ref that are plain values (non-empty, of
  characters that no step of the translation escapes or unescapes), \<open>buildRawUrl\<close>
  turns \<open>https://dev.azure.com/O/P/_git/R?path=F&version=GBX\<close> into
  \<open>https://dev.azure.com/O/P/_apis/git/repositories/R/items?path=F&version=X\<close>,
  and \<open>read\<close> sends exactly one request, to that URL, whatever \<open>fetch\<close> answers.
\<close>

theorem read_derives_api_url:
  assumes "plain_segment org" "plain_segment proj" "plain_segment repo"
    and "plain_value F" "plain_value X"
  shows "map_sum id href
           (buildRawUrl (''https://dev.azure.com/'' @ org @ ''/'' @ proj @ ''/_git/'' @ repo @
                         ''?path='' @ F @ ''&version=GB'' @ X)) =
           Inr (''https://dev.azure.com/'' @ org @ ''/'' @ proj @ ''/_apis/git/repositories/'' @
                repo @ ''/items?path='' @ F @ ''&version='' @ X) \<and>
         fst (read this fetch
                (''https://dev.azure.com/'' @ org @ ''/'' @ proj @ ''/_git/'' @ repo @
                 ''?path='' @ F @ ''&version=GB'' @ X)) =
           [Fetch (''https://dev.azure.com/'' @ org @ ''/'' @ proj @ ''/_apis/git/repositories/'' @
                   repo @ ''/items?path='' @ F @ ''&version='' @ X)
              (getRequestOptions this None)]"
proof -
  note b = buildRawUrl_path_version [OF assms]
  show ?thesis
    unfolding fst_read [OF b] unfolding b map_sum.simps href_azure by simp
qed

lemma plain_examples:
  "plain_segment ''o''" "plain_segment ''p''" "plain_segment ''r''"
  "plain_value ''docs/index.md''" "plain_value ''main''"
  by (simp_all add: plain_segment_def plain_value_def char_class_defs)

theorem read_derives_api_url_witness:
  "map_sum id href
     (buildRawUrl ''https://dev.azure.com/o/p/_git/r?path=docs/index.md&version=GBmain'') =
     Inr ''https://dev.azure.com/o/p/_apis/git/repositories/r/items?path=docs/index.md&version=main'' \<and>
   fst (read example_reader (responding 200 ''OK'' ''hello'')
          ''https://dev.azure.com/o/p/_git/r?path=docs/index.md&version=GBmain'') =
     [Fetch ''https://dev.azure.com/o/p/_apis/git/repositories/r/items?path=docs/index.md&version=main''
        \<lparr>headers = []\<rparr>]"
  using read_derives_api_url [OF plain_examples, of example_reader "responding 200 ''OK'' ''hello''"]
  by (simp add: getRequestOptions_example)

text \<open>
  The claim as stated, for every non-empty path, fails. The code reads the path
  through \<open>searchParams.get\<close>, which decodes it, and writes it back through the
  \<open>search\<close> setter, which escapes fewer characters: a path written \<open>%2Fdocs%2Fa.md\<close>
  is sent as \<open>/docs/a.md\<close>.
\<close>

lemma buildRawUrl_escaped_example:
  "buildRawUrl ''https://dev.azure.com/o/p/_git/r?path=%2Fdocs%2Fa.md&version=GBmain'' =
     Inr \<lparr>scheme = ''https'', username = [], password = [], hostname = ''dev.azure.com'',
          port = None, segments = [''o'', ''p'', ''_apis'', ''git'', ''repositories'', ''r'', ''items''],
          query = Some ''path=/docs/a.md&version=main'', fragment = None\<rparr>"
  by code_simp

theorem read_escaped_path_counterexample:
  "fst (read example_reader (responding 200 ''OK'' ''hello'')
          ''https://dev.azure.com/o/p/_git/r?path=%2Fdocs%2Fa.md&version=GBmain'') =
     [Fetch ''https://dev.azure.com/o/p/_apis/git/repositories/r/items?path=/docs/a.md&version=main''
        \<lparr>headers = []\<rparr>] \<and>
   fst (read example_reader (responding 200 ''OK'' ''hello'')
          ''https://dev.azure.com/o/p/_git/r?path=%2Fdocs%2Fa.md&version=GBmain'') \<noteq>
     [Fetch ''https://dev.azure.com/o/p/_apis/git/repositories/r/items?path=%2Fdocs%2Fa.md&version=main''
        \<lparr>headers = []\<rparr>]"
  by (simp add: fst_read [OF buildRawUrl_escaped_example] getRequestOptions_example
      href_def url_host_def pathname_def)

subsection \<open>What \<open>read\<close> returns on success\<close>

lemma utf8_decode_well_formed: "well_formed_utf8 bs \<Longrightarrow> utf8_decode bs = bs"
  by (induction rule: well_formed_utf8.induct)
     (simp_all add: in_range_def lower_boundary_def upper_boundary_def)

text \<open>
  Claim C2, as amended. The code returns \<open>Buffer.from(await response.text())\<close>: the
  body is decoded as UTF-8 text and encoded again. Whenever \<open>read\<close> has translated
  the URL and \<open>fetch\<close> has answered with a status in 200 to 299 other than 203, and
  the body is well-formed UTF-8, \<open>read\<close> returns the bytes of the body unchanged.
\<close>

theorem read_success_body:
  assumes "buildRawUrl url = Inr builtUrl"
    and "fetch (href builtUrl) (getRequestOptions this None) = Inr response"
    and "ok response" and "status response \<noteq> 203"
    and "well_formed_utf8 (body response)"
  shows "read this fetch url =
           ([Fetch (href builtUrl) (getRequestOptions this None)], Inr (body response))"
  using assms by (simp add: read_def text_of_def Buffer_from_def utf8_decode_well_formed)

text \<open>
  A well-formed body: a byte order mark (\<open>EF BB BF\<close>), the letter \<open>h\<close>, and the two
  bytes of U+00E9.
\<close>

lemma well_formed_example:
  "well_formed_utf8 [CHR 0xEF, CHR 0xBB, CHR 0xBF, CHR ''h'', CHR 0xC3, CHR 0xA9]"
proof -
  have "well_formed_utf8 []"
    by (rule wf_empty)
  then have "well_formed_utf8 [CHR 0xC3, CHR 0xA9]"
    by (rule wf_two [rotated 2]) (simp_all add: in_range_def byte_def)
  then have "well_formed_utf8 [CHR ''h'', CHR 0xC3, CHR 0xA9]"
    by (rule wf_ascii [rotated]) (simp add: byte_def)
  then show ?thesis
    by (rule wf_three_EE [rotated 3]) (simp_all add: in_range_def byte_def)
qed

theorem read_success_body_witness:
  "read example_reader
        (responding 200 ''OK'' [CHR 0xEF, CHR 0xBB, CHR 0xBF, CHR ''h'', CHR 0xC3, CHR 0xA9])
        ''https://dev.azure.com/o/p/_git/r?path=f&version=GBx'' =
     ([Fetch ''https://dev.azure.com/o/p/_apis/git/repositories/r/items?path=f&version=x''
         \<lparr>headers = []\<rparr>],
      Inr [CHR 0xEF, CHR 0xBB, CHR 0xBF, CHR ''h'', CHR 0xC3, CHR 0xA9])"
  using read_success_body [OF buildRawUrl_example,
      of "responding 200 ''OK'' [CHR 0xEF, CHR 0xBB, CHR 0xBF, CHR ''h'', CHR 0xC3, CHR 0xA9]"
      example_reader
      "\<lparr>status = 200, statusText = ''OK'',
        body = [CHR 0xEF, CHR 0xBB, CHR 0xBF, CHR ''h'', CHR 0xC3, CHR 0xA9]\<rparr>"]
    well_formed_example
  by (simp add: href_example getRequestOptions_example responding_def ok_def)

text \<open>
  The claim as stated, for every byte sequence, fails: a body of the single byte
  \<open>FF\<close> is not UTF-8, is decoded to U+FFFD, and comes back as the three bytes
  \<open>EF BF BD\<close>.
\<close>

theorem read_binary_body_counterexample:
  "read example_reader (responding 200 ''OK'' [CHR 0xFF])
        ''https://dev.azure.com/o/p/_git/r?path=f&version=GBx'' =
     ([Fetch ''https://dev.azure.com/o/p/_apis/git/repositories/r/items?path=f&version=x''
         \<lparr>headers = []\<rparr>],
      Inr [CHR 0xEF, CHR 0xBF, CHR 0xBD])"
  by (simp add: read_def buildRawUrl_example href_example getRequestOptions_example
      responding_def ok_def text_of_def Buffer_from_def byte_def
      replacement_character_def in_range_def)

subsection \<open>Status 203 is a failure of \<open>read\<close>\<close>

text \<open>
  Claim C3. Whenever \<open>read\<close> has translated the URL and \<open>fetch\<close> has answered with
  status 203, \<open>read\<close> throws a plain \<open>Error\<close>, not a \<open>NotFoundError\<close>, whose message
  is built from the two URLs, the status and the status text; the body of the response
  is not returned. One request was sent, to the derived URL.
\<close>

theorem read_status_203:
  assumes "buildRawUrl url = Inr builtUrl"
    and "fetch (href builtUrl) (getRequestOptions this None) = Inr response"
    and "status response = 203"
  shows "read this fetch url =
           ([Fetch (href builtUrl) (getRequestOptions this None)],
            Inl (Error (url @ '' could not be read as '' @ href builtUrl @ '', 203 '' @
                        statusText response)))"
  using assms by (simp add: read_def ok_def string_of_nat_examples)

theorem read_status_203_witness:
  "read example_reader (responding 203 ''Non-Authoritative Information'' ''<html>'')
        ''https://dev.azure.com/o/p/_git/r?path=f&version=GBx'' =
     ([Fetch ''https://dev.azure.com/o/p/_apis/git/repositories/r/items?path=f&version=x''
         \<lparr>headers = []\<rparr>],
      Inl (Error (''https://dev.azure.com/o/p/_git/r?path=f&version=GBx could not be read as '' @
                  ''https://dev.azure.com/o/p/_apis/git/repositories/r/items?path=f&version=x, '' @
                  ''203 Non-Authoritative Information'')))"
  using read_status_203 [OF buildRawUrl_example,
      of "responding 203 ''Non-Authoritative Information'' ''<html>''" example_reader
      "\<lparr>status = 203, statusText = ''Non-Authoritative Information'', body = ''<html>''\<rparr>"]
  by (simp add: href_example getRequestOptions_example responding_def)

subsection \<open>Status 203 in \<open>readTree\<close>\<close>

lemma getDownloadUrl_example:
  "getDownloadUrl example_parseGitUri ''https://dev.azure.com/o/p/_git/r?path=docs'' =
     Inr \<lparr>scheme = ''https'', username = [], password = [], hostname = ''dev.azure.com'',
          port = None, segments = [''o'', ''p'', ''_apis'', ''git'', ''repositories'', ''r'', ''items''],
          query = Some ''recursionLevel=full&download=true&api-version=6.0&scopePath=docs'',
          fragment = None\<rparr>"
  by code_simp

lemma href_download_example:
  "href \<lparr>scheme = ''https'', username = [], password = [], hostname = ''dev.azure.com'',
          port = None, segments = [''o'', ''p'', ''_apis'', ''git'', ''repositories'', ''r'', ''items''],
          query = Some ''recursionLevel=full&download=true&api-version=6.0&scopePath=docs'',
          fragment = None\<rparr> =
   ''https://dev.azure.com/o/p/_apis/git/repositories/r/items?recursionLevel=full&download=true&api-version=6.0&scopePath=docs''"
  by (simp add: href_def url_host_def pathname_def)

lemma getRequestOptions_zip_example:
  "getRequestOptions example_reader (Some [(''Accept'', ''application/zip'')]) =
     \<lparr>headers = [(''Accept'', ''application/zip'')]\<rparr>"
  by (simp add: getRequestOptions_def example_reader_def)

lemma fromZipArchive_example:
  "fromZipArchive (treeResponseFactory (deps example_reader)) archive = Inr ()"
  by (simp add: example_reader_def)

text \<open>
  Claim C4 says that \<open>readTree\<close> fails on status 203 as \<open>read\<close> does. \<open>readTree\<close>
  tests \<open>response.ok\<close> only, and 203 is in the range 200 to 299: the body of a 203
  response, the HTML of the sign-in page, is handed to \<open>fromZipArchive\<close>, and
  \<open>readTree\<close> returns what the factory returns.
\<close>

theorem readTree_status_203:
  "readTree example_reader (responding 203 ''Non-Authoritative Information'' ''<html>sign in</html>'')
     example_parseGitUri ''https://dev.azure.com/o/p/_git/r?path=docs'' None =
   ([Fetch ''https://dev.azure.com/o/p/_apis/git/repositories/r/items?recursionLevel=full&download=true&api-version=6.0&scopePath=docs''
       \<lparr>headers = [(''Accept'', ''application/zip'')]\<rparr>,
     FromZipArchive \<lparr>stream = ''<html>sign in</html>'', filter_fn = None\<rparr>],
    Inr ())"
  by (simp add: readTree_def getDownloadUrl_example href_download_example
      getRequestOptions_zip_example responding_def ok_def fromZipArchive_example)

subsection \<open>The error kinds of \<open>read\<close>\<close>

text \<open>
  Claim C5. Whenever \<open>read\<close> has translated the URL and \<open>fetch\<close> has answered with
  a response that \<open>read\<close> does not accept (its status is outside 200 to 299, or it is
  203), \<open>read\<close> throws a \<open>NotFoundError\<close> when the status is 404 and a plain
  \<open>Error\<close> for every other status, 500 for one.
\<close>

theorem read_failure_mapping:
  assumes "buildRawUrl url = Inr builtUrl"
    and "fetch (href builtUrl) (getRequestOptions this None) = Inr response"
    and "\<not> ok response \<or> status response = 203"
  shows "snd (read this fetch url) =
           Inl ((if status response = 404 then NotFoundError else Error)
                  (url @ '' could not be read as '' @ href builtUrl @ '', '' @
                   string_of_nat (status response) @ '' '' @ statusText response))"
  using assms by (auto simp: read_def)

theorem read_failure_mapping_witness:
  "snd (read example_reader (responding 404 ''Not Found'' [])
          ''https://dev.azure.com/o/p/_git/r?path=f&version=GBx'') =
     Inl (NotFoundError
            (''https://dev.azure.com/o/p/_git/r?path=f&version=GBx could not be read as '' @
             ''https://dev.azure.com/o/p/_apis/git/repositories/r/items?path=f&version=x, '' @
             ''404 Not Found'')) \<and>
   snd (read example_reader (responding 500 ''Internal Server Error'' [])
          ''https://dev.azure.com/o/p/_git/r?path=f&version=GBx'') =
     Inl (Error
            (''https://dev.azure.com/o/p/_git/r?path=f&version=GBx could not be read as '' @
             ''https://dev.azure.com/o/p/_apis/git/repositories/r/items?path=f&version=x, '' @
             ''500 Internal Server Error''))"
  using read_failure_mapping [OF buildRawUrl_example,
      of "responding 404 ''Not Found'' []" example_reader
      "\<lparr>status = 404, statusText = ''Not Found'', body = []\<rparr>"]
    read_failure_mapping [OF buildRawUrl_example,
      of "responding 500 ''Internal Server Error'' []" example_reader
      "\<lparr>status = 500, statusText = ''Internal Server Error'', body = []\<rparr>"]
  by (simp add: href_example getRequestOptions_example responding_def ok_def string_of_nat_examples)

subsection \<open>What the error messages contain\<close>

lemma sublist_between: "ys = ps @ xs @ ss \<Longrightarrow> sublist xs ys"
  by (auto simp: sublist_def)

text \<open>
  Claim C6, as amended. The message of every error that \<open>read\<close> throws for a response
  contains the source URL, the derived URL, the status code and the status text. The
  message of every error that \<open>readTree\<close> throws for a response contains the source
  URL, the status code and the status text: it is \<open>Failed to read tree from\<close>, a
  space, the source URL, a comma and a space, the status code, a space, and the status
  text.
\<close>

theorem error_message_contents:
  "(buildRawUrl url = Inr builtUrl \<and>
    fetch (href builtUrl) (getRequestOptions this None) = Inr response \<and>
    (\<not> ok response \<or> status response = 203) \<longrightarrow>
    (\<exists>e. snd (read this fetch url) = Inl e \<and>
         sublist url (error_message e) \<and>
         sublist (href builtUrl) (error_message e) \<and>
         sublist (string_of_nat (status response)) (error_message e) \<and>
         sublist (statusText response) (error_message e))) \<and>
   (getDownloadUrl parseGitUri url = Inr downloadUrl \<and>
    fetch (href downloadUrl) (getRequestOptions this (Some [(''Accept'', ''application/zip'')])) =
      Inr response \<and>
    \<not> ok response \<longrightarrow>
    (\<exists>e. snd (readTree this fetch parseGitUri url opts) = Inl e \<and>
         error_message e =
           ''Failed to read tree from '' @ url @ '', '' @
           string_of_nat (status response) @ '' '' @ statusText response \<and>
         sublist url (error_message e) \<and>
         sublist (string_of_nat (status response)) (error_message e) \<and>
         sublist (statusText response) (error_message e)))"
proof (intro conjI impI)
  assume a: "buildRawUrl url = Inr builtUrl \<and>
    fetch (href builtUrl) (getRequestOptions this None) = Inr response \<and>
    (\<not> ok response \<or> status response = 203)"
  define m where "m = url @ '' could not be read as '' @ href builtUrl @ '', '' @
                      string_of_nat (status response) @ '' '' @ statusText response"
  have r: "snd (read this fetch url) = Inl ((if status response = 404 then NotFoundError else Error) m)"
    using a by (auto simp: read_def m_def)
  have e: "error_message ((if status response = 404 then NotFoundError else Error) m) = m"
    by (simp add: error_message_def)
  have "sublist url m"
    unfolding m_def by (rule sublist_between [of _ "[]"]) simp
  moreover have "sublist (href builtUrl) m"
    unfolding m_def by (rule sublist_between [of _ "url @ '' could not be read as ''"]) simp
  moreover have "sublist (string_of_nat (status response)) m"
    unfolding m_def
    by (rule sublist_between [of _ "url @ '' could not be read as '' @ href builtUrl @ '', ''"]) simp
  moreover have "sublist (statusText response) m"
    unfolding m_def
    by (rule sublist_between [of _ "url @ '' could not be read as '' @ href builtUrl @ '', '' @
          string_of_nat (status response) @ '' ''"]) simp
  ultimately show "\<exists>e. snd (read this fetch url) = Inl e \<and>
         sublist url (error_message e) \<and>
         sublist (href builtUrl) (error_message e) \<and>
         sublist (string_of_nat (status response)) (error_message e) \<and>
         sublist (statusText response) (error_message e)"
    using r e by auto
next
  assume a: "getDownloadUrl parseGitUri url = Inr downloadUrl \<and>
    fetch (href downloadUrl) (getRequestOptions this (Some [(''Accept'', ''application/zip'')])) =
      Inr response \<and>
    \<not> ok response"
  define m where "m = ''Failed to read tree from '' @ url @ '', '' @
                      string_of_nat (status response) @ '' '' @ statusText response"
  have r: "snd (readTree this fetch parseGitUri url opts) =
             Inl ((if status response = 404 then NotFoundError else Error) m)"
    using a by (auto simp: readTree_def m_def)
  have e: "error_message ((if status response = 404 then NotFoundError else Error) m) = m"
    by (simp add: error_message_def)
  have "sublist url m"
    unfolding m_def by (rule sublist_between [of _ "''Failed to read tree from ''"]) simp
  moreover have "sublist (string_of_nat (status response)) m"
    unfolding m_def
    by (rule sublist_between [of _ "''Failed to read tree from '' @ url @ '', ''"]) simp
  moreover have "sublist (statusText response) m"
    unfolding m_def
    by (rule sublist_between [of _ "''Failed to read tree from '' @ url @ '', '' @
          string_of_nat (status response) @ '' ''"]) simp
  ultimately show "\<exists>e. snd (readTree this fetch parseGitUri url opts) = Inl e \<and>
         error_message e =
           ''Failed to read tree from '' @ url @ '', '' @
           string_of_nat (status response) @ '' '' @ statusText response \<and>
         sublist url (error_message e) \<and>
         sublist (string_of_nat (status response)) (error_message e) \<and>
         sublist (statusText response) (error_message e)"
    using r e unfolding m_def by auto
qed


theorem error_message_contents_witness:
  "(\<exists>e. snd (read example_reader (responding 500 ''Internal Server Error'' [])
               ''https://dev.azure.com/o/p/_git/r?path=f&version=GBx'') = Inl e \<and>
        sublist ''https://dev.azure.com/o/p/_git/r?path=f&version=GBx'' (error_message e) \<and>
        sublist ''https://dev.azure.com/o/p/_apis/git/repositories/r/items?path=f&version=x''
          (error_message e) \<and>
        sublist ''500'' (error_message e) \<and>
        sublist ''Internal Server Error'' (error_message e)) \<and>
   (\<exists>e. snd (readTree example_reader (responding 500 ''Internal Server Error'' [])
               example_parseGitUri ''https://dev.azure.com/o/p/_git/r?path=docs'' None) = Inl e \<and>
        error_message e =
          ''Failed to read tree from https://dev.azure.com/o/p/_git/r?path=docs, 500 Internal Server Error'' \<and>
        sublist ''https://dev.azure.com/o/p/_git/r?path=docs'' (error_message e) \<and>
        sublist ''500'' (error_message e) \<and>
        sublist ''Internal Server Error'' (error_message e))"
proof -
  let ?response = "\<lparr>status = 500, statusText = ''Internal Server Error'', body = []\<rparr>"
  let ?fetch = "responding 500 ''Internal Server Error'' []"
  have f: "\<And>u i. ?fetch u i = Inr ?response"
    by (simp add: responding_def)
  have n: "\<not> ok ?response"
    by (simp add: ok_def)
  have 1: "buildRawUrl ''https://dev.azure.com/o/p/_git/r?path=f&version=GBx'' = Inr
       \<lparr>scheme = ''https'', username = [], password = [], hostname = ''dev.azure.com'',
          port = None, segments = [''o'', ''p'', ''_apis'', ''git'', ''repositories'', ''r'', ''items''],
          query = Some ''path=f&version=x'', fragment = None\<rparr> \<and>
     ?fetch (href \<lparr>scheme = ''https'', username = [], password = [], hostname = ''dev.azure.com'',
          port = None, segments = [''o'', ''p'', ''_apis'', ''git'', ''repositories'', ''r'', ''items''],
          query = Some ''path=f&version=x'', fragment = None\<rparr>) (getRequestOptions example_reader None) = Inr ?response \<and>
     (\<not> ok ?response \<or> status ?response = 203)"
    using buildRawUrl_example f n by blast
  have 2: "getDownloadUrl example_parseGitUri ''https://dev.azure.com/o/p/_git/r?path=docs'' = Inr
       \<lparr>scheme = ''https'', username = [], password = [], hostname = ''dev.azure.com'',
          port = None, segments = [''o'', ''p'', ''_apis'', ''git'', ''repositories'', ''r'', ''items''],
          query = Some ''recursionLevel=full&download=true&api-version=6.0&scopePath=docs'',
          fragment = None\<rparr> \<and>
     ?fetch (href \<lparr>scheme = ''https'', username = [], password = [], hostname = ''dev.azure.com'',
          port = None, segments = [''o'', ''p'', ''_apis'', ''git'', ''repositories'', ''r'', ''items''],
          query = Some ''recursionLevel=full&download=true&api-version=6.0&scopePath=docs'',
          fragment = None\<rparr>) (getRequestOptions example_reader (Some [(''Accept'', ''application/zip'')])) = Inr ?response \<and>
     \<not> ok ?response"
    using getDownloadUrl_example f n by blast
  note t = error_message_contents [where url = "''https://dev.azure.com/o/p/_git/r?path=f&version=GBx''"
      and fetch = ?fetch and this = example_reader and response = ?response]
  from t [THEN conjunct1, THEN mp, OF 1]
  have a: "\<exists>e. snd (read example_reader ?fetch
               ''https://dev.azure.com/o/p/_git/r?path=f&version=GBx'') = Inl e \<and>
        sublist ''https://dev.azure.com/o/p/_git/r?path=f&version=GBx'' (error_message e) \<and>
        sublist ''https://dev.azure.com/o/p/_apis/git/repositories/r/items?path=f&version=x''
          (error_message e) \<and>
        sublist ''500'' (error_message e) \<and>
        sublist ''Internal Server Error'' (error_message e)"
    unfolding href_example by (simp only: Response.simps string_of_nat_examples)
  note t2 = error_message_contents [where url = "''https://dev.azure.com/o/p/_git/r?path=docs''"
      and fetch = ?fetch and this = example_reader and response = ?response
      and parseGitUri = example_parseGitUri and opts = None]
  from t2 [THEN conjunct2, THEN mp, OF 2]
  have b: "\<exists>e. snd (readTree example_reader ?fetch
               example_parseGitUri ''https://dev.azure.com/o/p/_git/r?path=docs'' None) = Inl e \<and>
        error_message e =
          ''Failed to read tree from https://dev.azure.com/o/p/_git/r?path=docs, 500 Internal Server Error'' \<and>
        sublist ''https://dev.azure.com/o/p/_git/r?path=docs'' (error_message e) \<and>
        sublist ''500'' (error_message e) \<and>
        sublist ''Internal Server Error'' (error_message e)"
    by (simp only: Response.simps string_of_nat_examples append.simps)
  from a b show ?thesis by blast
qed

text \<open>
  The claim as stated fails for \<open>readTree\<close>. On this call the request goes to the
  derived URL, the answer has status 500, and the message of the error does not
  contain the derived URL.
\<close>

theorem readTree_message_counterexample:
  "readTree example_reader (responding 500 ''Internal Server Error'' []) example_parseGitUri
     ''https://dev.azure.com/o/p/_git/r?path=docs'' None =
     ([Fetch ''https://dev.azure.com/o/p/_apis/git/repositories/r/items?recursionLevel=full&download=true&api-version=6.0&scopePath=docs''
         \<lparr>headers = [(''Accept'', ''application/zip'')]\<rparr>],
      Inl (Error ''Failed to read tree from https://dev.azure.com/o/p/_git/r?path=docs, 500 Internal Server Error'')) \<and>
   \<not> sublist ''https://dev.azure.com/o/p/_apis/git/repositories/r/items?recursionLevel=full&download=true&api-version=6.0&scopePath=docs''
       ''Failed to read tree from https://dev.azure.com/o/p/_git/r?path=docs, 500 Internal Server Error''"
proof
  show "readTree example_reader (responding 500 ''Internal Server Error'' []) example_parseGitUri
     ''https://dev.azure.com/o/p/_git/r?path=docs'' None =
     ([Fetch ''https://dev.azure.com/o/p/_apis/git/repositories/r/items?recursionLevel=full&download=true&api-version=6.0&scopePath=docs''
         \<lparr>headers = [(''Accept'', ''application/zip'')]\<rparr>],
      Inl (Error ''Failed to read tree from https://dev.azure.com/o/p/_git/r?path=docs, 500 Internal Server Error''))"
    by (simp add: readTree_def getDownloadUrl_example href_download_example
        getRequestOptions_zip_example responding_def ok_def string_of_nat_examples)
  show "\<not> sublist ''https://dev.azure.com/o/p/_apis/git/repositories/r/items?recursionLevel=full&download=true&api-version=6.0&scopePath=docs''
       ''Failed to read tree from https://dev.azure.com/o/p/_git/r?path=docs, 500 Internal Server Error''"
  proof
    assume "sublist ''https://dev.azure.com/o/p/_apis/git/repositories/r/items?recursionLevel=full&download=true&api-version=6.0&scopePath=docs''
       ''Failed to read tree from https://dev.azure.com/o/p/_git/r?path=docs, 500 Internal Server Error''"
    then have "length ''https://dev.azure.com/o/p/_apis/git/repositories/r/items?recursionLevel=full&download=true&api-version=6.0&scopePath=docs''
       \<le> length ''Failed to read tree from https://dev.azure.com/o/p/_git/r?path=docs, 500 Internal Server Error''"
      by (rule sublist_length_le)
    then show False by simp
  qed
qed

subsection \<open>A URL without \<open>version\<close>\<close>

lemma buildRawUrl_path_only:
  assumes "plain_segment org" "plain_segment proj" "plain_segment repo" and "plain_value F"
  shows "buildRawUrl (''https://dev.azure.com/'' @ org @ ''/'' @ proj @ ''/_git/'' @ repo @
                      ''?path='' @ F) =
         Inr \<lparr>scheme = ''https'', username = [], password = [], hostname = ''dev.azure.com'',
              port = None, segments = [org, proj, ''_apis'', ''git'', ''repositories'', repo, ''items''],
              query = Some (''path='' @ F), fragment = None\<rparr>"
proof -
  define Q where "Q = ''path='' @ F"
  define u where "u = \<lparr>scheme = ''https'', username = [], password = [], hostname = ''dev.azure.com'',
              port = None, segments = [org, proj, ''_git'', repo], query = Some Q,
              fragment = None\<rparr>"
  note fF = plain_value_facts [OF assms(4)]
  have q1: "\<forall>c\<in>set Q. 32 < byte c"
    using fF(2) by (auto simp: Q_def byte_def)
  have q2: "\<forall>c\<in>set Q. c \<noteq> CHR ''#''"
    using fF(6) by (auto simp: Q_def)
  have q3: "\<forall>c\<in>set Q. \<not> special_query_percent_encode_set c"
    using fF(3)
    by (auto simp: Q_def special_query_percent_encode_set_def query_percent_encode_set_def
        c0_control_percent_encode_set_def byte_def)
  have parse: "URL_new (''https://dev.azure.com/'' @ org @ ''/'' @ proj @ ''/_git/'' @ repo @
                      ''?path='' @ F) = Inr u"
    using URL_new_azure [OF assms(1-3) q1 q2 q3] by (simp add: Q_def u_def)
  have parts: "js_split CHR ''/'' (pathname u) = [[], org, proj, ''_git'', repo]"
    unfolding u_def by (rule js_split_pathname) (use assms plain_segment_literals in auto)
  have sp: "searchParams u = [(''path'', F)]"
    using urlencoded_parse_path [OF assms(4)] by (simp add: searchParams_def u_def Q_def)
  have ne: "org \<noteq> []" "proj \<noteq> []" "repo \<noteq> []" "F \<noteq> []"
    using assms by (auto simp: plain_segment_def plain_value_def)
  have ss: "\<And>w. set_search Q w = w\<lparr>query := Some Q\<rparr>"
    by (rule set_search_visible) (use q1 q3 in \<open>auto simp: Q_def\<close>)
  have segs: "\<And>w. set_pathname (concat (map ((#) CHR ''/'')
                  [org, proj, ''_apis'', ''git'', ''repositories'', repo, ''items''])) w =
               w\<lparr>segments := [org, proj, ''_apis'', ''git'', ''repositories'', repo, ''items'']\<rparr>"
    by (rule set_pathname_segments) (use assms plain_segment_literals in auto)
  have hu: "hostname u = ''dev.azure.com''" "port u = None"
    by (simp_all add: u_def)
  have "buildRawUrl (''https://dev.azure.com/'' @ org @ ''/'' @ proj @ ''/_git/'' @ repo @
                      ''?path='' @ F) =
        Inr (u\<lparr>segments := [org, proj, ''_apis'', ''git'', ''repositories'', repo, ''items''],
               query := Some Q, scheme := ''https'', port := None\<rparr>)"
    unfolding buildRawUrl_def parse
    by (simp add: parts sp js_index_def searchParams_get_def ne Let_def hu
        js_join_slash js_join_amp segs ss [unfolded Q_def, simplified] set_protocol_https Q_def
        del: js_join.simps concat.simps list.map)
  then show ?thesis
    by (simp add: u_def Q_def)
qed

text \<open>
  Claim C7, as amended. Without a \<open>version\<close> parameter \<open>ref\<close> is \<open>undefined\<close>, which
  the test \<open>ref === ''\<close> lets through, and the code then leaves \<open>version\<close> out of the
  query (\<open>if (ref)\<close>). For every organization, project and repository that are plain
  segments and every file path that is a plain value, \<open>buildRawUrl\<close> turns
  \<open>https://dev.azure.com/O/P/_git/R?path=F\<close> into
  \<open>https://dev.azure.com/O/P/_apis/git/repositories/R/items?path=F\<close>, and \<open>read\<close>
  sends one request to that URL: there is no translation error.
\<close>

theorem read_without_version:
  assumes "plain_segment org" "plain_segment proj" "plain_segment repo" and "plain_value F"
  shows "map_sum id href
           (buildRawUrl (''https://dev.azure.com/'' @ org @ ''/'' @ proj @ ''/_git/'' @ repo @
                         ''?path='' @ F)) =
           Inr (''https://dev.azure.com/'' @ org @ ''/'' @ proj @ ''/_apis/git/repositories/'' @
                repo @ ''/items?path='' @ F) \<and>
         fst (read this fetch
                (''https://dev.azure.com/'' @ org @ ''/'' @ proj @ ''/_git/'' @ repo @
                 ''?path='' @ F)) =
           [Fetch (''https://dev.azure.com/'' @ org @ ''/'' @ proj @ ''/_apis/git/repositories/'' @
                   repo @ ''/items?path='' @ F)
              (getRequestOptions this None)]"
proof -
  note b = buildRawUrl_path_only [OF assms]
  show ?thesis
    unfolding fst_read [OF b] unfolding b map_sum.simps href_azure by simp
qed

theorem read_without_version_witness:
  "map_sum id href (buildRawUrl ''https://dev.azure.com/o/p/_git/r?path=docs/index.md'') =
     Inr ''https://dev.azure.com/o/p/_apis/git/repositories/r/items?path=docs/index.md'' \<and>
   fst (read example_reader (responding 200 ''OK'' ''hello'')
          ''https://dev.azure.com/o/p/_git/r?path=docs/index.md'') =
     [Fetch ''https://dev.azure.com/o/p/_apis/git/repositories/r/items?path=docs/index.md''
        \<lparr>headers = []\<rparr>]"
  using read_without_version [OF plain_examples(1-4), of example_reader "responding 200 ''OK'' ''hello''"]
  by (simp add: getRequestOptions_example)

text \<open>
  The claim as stated fails: \<open>read\<close> on a URL with no \<open>version\<close> sends its request
  and returns the body.
\<close>

lemma buildRawUrl_no_version_example:
  "buildRawUrl ''https://dev.azure.com/o/p/_git/r?path=f'' =
     Inr \<lparr>scheme = ''https'', username = [], password = [], hostname = ''dev.azure.com'',
          port = None, segments = [''o'', ''p'', ''_apis'', ''git'', ''repositories'', ''r'', ''items''],
          query = Some ''path=f'', fragment = None\<rparr>"
  by code_simp

theorem read_without_version_counterexample:
  "read example_reader (responding 200 ''OK'' ''hello'') ''https://dev.azure.com/o/p/_git/r?path=f'' =
     ([Fetch ''https://dev.azure.com/o/p/_apis/git/repositories/r/items?path=f'' \<lparr>headers = []\<rparr>],
      Inr ''hello'')"
  by (simp add: read_def buildRawUrl_no_version_example getRequestOptions_example
      href_def url_host_def pathname_def responding_def ok_def text_of_def Buffer_from_def
      byte_def)

subsection \<open>URLs that \<open>read\<close> rejects before any request\<close>

lemma js_substr_GB_only: "js_substr 2 ''GB'' = []"
  by (simp add: numeral_2_eq_2 utf8_length_def byte_def)

text \<open>
  What the tests of \<open>buildRawUrl\<close> do reject. Let \<open>new URL\<close> read the source URL as
  \<open>u\<close>. If \<open>u\<close> has no \<open>path\<close> parameter, or its \<open>version\<close> parameter is exactly
  \<open>GB\<close>, or its host name is not \<open>dev.azure.com\<close>, or the fourth piece of its
  path (the keyword) is not \<open>_git\<close>, or the piece for the organization, the project
  or the repository is there and empty, then \<open>read\<close> throws the translation error
  and sends no request: the list of events is empty, whatever \<open>fetch\<close> would answer.
  (The host is read through \<open>url.hostname\<close>, which leaves the port out.)
\<close>

lemma read_rejects_before_fetch:
  assumes "URL_new target = Inr u"
    and "searchParams_get ''path'' u = None \<or>
         searchParams_get ''version'' u = Some ''GB'' \<or>
         hostname u \<noteq> ''dev.azure.com'' \<or>
         js_index (js_split CHR ''/'' (pathname u)) 3 \<noteq> Some ''_git'' \<or>
         js_index (js_split CHR ''/'' (pathname u)) 1 = Some [] \<or>
         js_index (js_split CHR ''/'' (pathname u)) 2 = Some [] \<or>
         js_index (js_split CHR ''/'' (pathname u)) 4 = Some []"
  shows "read this fetch target =
           ([], Inl (Error (''Incorrect url: '' @ target @
                            '', Error: Wrong Azure Devops URL or Invalid file path'')))"
proof -
  have "buildRawUrl target =
          Inl (Error (''Incorrect url: '' @ target @ '', '' @
                      error_toString (Error ''Wrong Azure Devops URL or Invalid file path'')))"
    using assms by (auto simp: buildRawUrl_def Let_def js_substr_GB_only)
  then show ?thesis
    by (simp add: read_def error_toString_def error_name_def error_message_def)
qed

lemma read_rejects_before_fetch_examples:
  "read example_reader (responding 200 ''OK'' ''hello'') ''https://dev.azure.com/o/p/_git/r?version=GBmain'' =
     ([], Inl (Error (''Incorrect url: '' @ ''https://dev.azure.com/o/p/_git/r?version=GBmain'' @
                      '', Error: Wrong Azure Devops URL or Invalid file path''))) \<and>
   read example_reader (responding 200 ''OK'' ''hello'') ''https://dev.azure.com/o/p/_git/r?path=f&version=GB'' =
     ([], Inl (Error (''Incorrect url: '' @ ''https://dev.azure.com/o/p/_git/r?path=f&version=GB'' @
                      '', Error: Wrong Azure Devops URL or Invalid file path''))) \<and>
   read example_reader (responding 200 ''OK'' ''hello'') ''https://example.com/o/p/_git/r?path=f&version=GBmain'' =
     ([], Inl (Error (''Incorrect url: '' @ ''https://example.com/o/p/_git/r?path=f&version=GBmain'' @
                      '', Error: Wrong Azure Devops URL or Invalid file path''))) \<and>
   read example_reader (responding 200 ''OK'' ''hello'') ''https://dev.azure.com/o/p/_wiki/r?path=f&version=GBmain'' =
     ([], Inl (Error (''Incorrect url: '' @ ''https://dev.azure.com/o/p/_wiki/r?path=f&version=GBmain'' @
                      '', Error: Wrong Azure Devops URL or Invalid file path''))) \<and>
   read example_reader (responding 200 ''OK'' ''hello'') ''https://dev.azure.com//p/_git/r?path=f&version=GBmain'' =
     ([], Inl (Error (''Incorrect url: '' @ ''https://dev.azure.com//p/_git/r?path=f&version=GBmain'' @
                      '', Error: Wrong Azure Devops URL or Invalid file path''))) \<and>
   read example_reader (responding 200 ''OK'' ''hello'') ''https://dev.azure.com/o//_git/r?path=f&version=GBmain'' =
     ([], Inl (Error (''Incorrect url: '' @ ''https://dev.azure.com/o//_git/r?path=f&version=GBmain'' @
                      '', Error: Wrong Azure Devops URL or Invalid file path''))) \<and>
   read example_reader (responding 200 ''OK'' ''hello'') ''https://dev.azure.com/o/p/_git/?path=f&version=GBmain'' =
     ([], Inl (Error (''Incorrect url: '' @ ''https://dev.azure.com/o/p/_git/?path=f&version=GBmain'' @
                      '', Error: Wrong Azure Devops URL or Invalid file path'')))"
proof -
  have "case URL_new ''https://dev.azure.com/o/p/_git/r?version=GBmain'' of Inl e \<Rightarrow> False
        | Inr u \<Rightarrow> searchParams_get ''path'' u = None"
    by code_simp
  then obtain u0 where p0: "URL_new ''https://dev.azure.com/o/p/_git/r?version=GBmain'' = Inr u0" "searchParams_get ''path'' u0 = None"
    by (auto split: sum.splits)
  note r0 = read_rejects_before_fetch [of _ u0 example_reader "responding 200 ''OK'' ''hello''", OF p0(1)]
  have "case URL_new ''https://dev.azure.com/o/p/_git/r?path=f&version=GB'' of Inl e \<Rightarrow> False
        | Inr u \<Rightarrow> searchParams_get ''version'' u = Some ''GB''"
    by code_simp
  then obtain u1 where p1: "URL_new ''https://dev.azure.com/o/p/_git/r?path=f&version=GB'' = Inr u1" "searchParams_get ''version'' u1 = Some ''GB''"
    by (auto split: sum.splits)
  note r1 = read_rejects_before_fetch [of _ u1 example_reader "responding 200 ''OK'' ''hello''", OF p1(1)]
  have "case URL_new ''https://example.com/o/p/_git/r?path=f&version=GBmain'' of Inl e \<Rightarrow> False
        | Inr u \<Rightarrow> hostname u \<noteq> ''dev.azure.com''"
    by code_simp
  then obtain u2 where p2: "URL_new ''https://example.com/o/p/_git/r?path=f&version=GBmain'' = Inr u2" "hostname u2 \<noteq> ''dev.azure.com''"
    by (auto split: sum.splits)
  note r2 = read_rejects_before_fetch [of _ u2 example_reader "responding 200 ''OK'' ''hello''", OF p2(1)]
  have "case URL_new ''https://dev.azure.com/o/p/_wiki/r?path=f&version=GBmain'' of Inl e \<Rightarrow> False
        | Inr u \<Rightarrow> js_index (js_split CHR ''/'' (pathname u)) 3 \<noteq> Some ''_git''"
    by code_simp
  then obtain u3 where p3: "URL_new ''https://dev.azure.com/o/p/_wiki/r?path=f&version=GBmain'' = Inr u3" "js_index (js_split CHR ''/'' (pathname u3)) 3 \<noteq> Some ''_git''"
    by (auto split: sum.splits)
  note r3 = read_rejects_before_fetch [of _ u3 example_reader "responding 200 ''OK'' ''hello''", OF p3(1)]
  have "case URL_new ''https://dev.azure.com//p/_git/r?path=f&version=GBmain'' of Inl e \<Rightarrow> False
        | Inr u \<Rightarrow> js_index (js_split CHR ''/'' (pathname u)) 1 = Some []"
    by code_simp
  then obtain u4 where p4: "URL_new ''https://dev.azure.com//p/_git/r?path=f&version=GBmain'' = Inr u4" "js_index (js_split CHR ''/'' (pathname u4)) 1 = Some []"
    by (auto split: sum.splits)
  note r4 = read_rejects_before_fetch [of _ u4 example_reader "responding 200 ''OK'' ''hello''", OF p4(1)]
  have "case URL_new ''https://dev.azure.com/o//_git/r?path=f&version=GBmain'' of Inl e \<Rightarrow> False
        | Inr u \<Rightarrow> js_index (js_split CHR ''/'' (pathname u)) 2 = Some []"
    by code_simp
  then obtain u5 where p5: "URL_new ''https://dev.azure.com/o//_git/r?path=f&version=GBmain'' = Inr u5" "js_index (js_split CHR ''/'' (pathname u5)) 2 = Some []"
    by (auto split: sum.splits)
  note r5 = read_rejects_before_fetch [of _ u5 example_reader "responding 200 ''OK'' ''hello''", OF p5(1)]
  have "case URL_new ''https://dev.azure.com/o/p/_git/?path=f&version=GBmain'' of Inl e \<Rightarrow> False
        | Inr u \<Rightarrow> js_index (js_split CHR ''/'' (pathname u)) 4 = Some []"
    by code_simp
  then obtain u6 where p6: "URL_new ''https://dev.azure.com/o/p/_git/?path=f&version=GBmain'' = Inr u6" "js_index (js_split CHR ''/'' (pathname u6)) 4 = Some []"
    by (auto split: sum.splits)
  note r6 = read_rejects_before_fetch [of _ u6 example_reader "responding 200 ''OK'' ''hello''", OF p6(1)]
  show ?thesis
    using r0 r1 r2 r3 r4 r5 r6 p0(2) p1(2) p2(2) p3(2) p4(2) p5(2) p6(2)
    by (simp only: simp_thms)
qed

text \<open>
  A path that ends after the keyword has no piece for the repository: the split
  gives four pieces, and \<open>repoName\<close> is \<open>undefined\<close>, not the empty string. The test
  \<open>repoName === ''\<close> lets it through, and \<open>join\<close> writes it as an empty segment of
  the derived URL.
\<close>

lemma buildRawUrl_absent_repository_example:
  "buildRawUrl ''https://dev.azure.com/o/p/_git?path=f&version=GBx'' =
     Inr \<lparr>scheme = ''https'', username = [], password = [], hostname = ''dev.azure.com'',
          port = None, segments = [''o'', ''p'', ''_apis'', ''git'', ''repositories'', [], ''items''],
          query = Some ''path=f&version=x'', fragment = None\<rparr>"
  by code_simp

text \<open>
  Claim C8 says that \<open>read\<close> throws the translation error, before any request, for
  every source URL without a \<open>path\<close> parameter, with the \<open>version\<close> \<open>GB\<close>, with
  another host, with another keyword, or with an empty organization, project or
  repository. The code fails it for a repository that is missing: on
  \<open>https://dev.azure.com/o/p/_git?path=f&version=GBx\<close> no test of \<open>buildRawUrl\<close>
  is true, \<open>read\<close> sends its request to
  \<open>https://dev.azure.com/o/p/_apis/git/repositories//items?path=f&version=x\<close>, and it
  returns the body of the answer.
\<close>

theorem read_absent_repository:
  "read example_reader (responding 200 ''OK'' ''hello'')
        ''https://dev.azure.com/o/p/_git?path=f&version=GBx'' =
     ([Fetch ''https://dev.azure.com/o/p/_apis/git/repositories//items?path=f&version=x''
         \<lparr>headers = []\<rparr>],
      Inr ''hello'')"
  by (simp add: read_def buildRawUrl_absent_repository_example getRequestOptions_example
      href_def url_host_def pathname_def responding_def ok_def text_of_def Buffer_from_def
      byte_def)

subsection \<open>The download URL of \<open>readTree\<close>\<close>

lemma byte_less_256: "byte c < 256"
  by (simp add: byte_def)

lemma byte_hex_digit: "n < 16 \<Longrightarrow> byte (hex_digit n) = (if n < 10 then 48 + n else 55 + n)"
  by (simp add: hex_digit_def byte_def)

lemma percent_encode_byte_chars:
  assumes "d \<in> set (percent_encode_byte c)"
  shows "32 < byte d \<and> d \<noteq> CHR ''#'' \<and> byte d < 128"
proof -
  have h: "byte c div 16 < 16" "byte c mod 16 < 16"
    using byte_less_256 [of c] by auto
  from assms consider "d = CHR ''%''" | "d = hex_digit (byte c div 16)" | "d = hex_digit (byte c mod 16)"
    by (auto simp: percent_encode_byte_def)
  moreover have sharp: "byte (CHR ''#'') = 35" "byte (CHR ''%'') = 37"
    by (simp_all add: byte_def)
  ultimately show ?thesis
  proof cases
    case 1
    with sharp show ?thesis by auto
  next
    case 2
    with byte_hex_digit [OF h(1)] h(1) have "48 \<le> byte d \<and> byte d \<le> 70"
      by (auto split: if_splits)
    with sharp show ?thesis by auto
  next
    case 3
    with byte_hex_digit [OF h(2)] h(2) have "48 \<le> byte d \<and> byte d \<le> 70"
      by (auto split: if_splits)
    with sharp show ?thesis by auto
  qed
qed

lemma uri_unreserved_chars:
  assumes "uri_unreserved c"
  shows "32 < byte c \<and> c \<noteq> CHR ''#'' \<and> byte c < 128"
  using assms
  by (auto simp: uri_unreserved_def is_ascii_alphanumeric_def is_ascii_alpha_def
      is_ascii_upper_alpha_def is_ascii_lower_alpha_def is_ascii_digit_def byte_eq_iff [of c])
     (simp_all add: byte_def)

lemma encodeURIComponent_chars:
  assumes "d \<in> set (encodeURIComponent s)"
  shows "32 < byte d \<and> d \<noteq> CHR ''#'' \<and> byte d < 128"
proof -
  from assms obtain c where "c \<in> set s"
    and "d \<in> set (if \<not> uri_unreserved c then percent_encode_byte c else [c])"
    by (auto simp: encodeURIComponent_def percent_encode_def)
  then show ?thesis
    using percent_encode_byte_chars [of d c] uri_unreserved_chars [of c]
    by (auto split: if_splits)
qed

lemma percent_encode_append:
  "percent_encode E (xs @ ys) = percent_encode E xs @ percent_encode E ys"
  by (simp add: percent_encode_def)



lemma special_query_set_bytes:
  "special_query_percent_encode_set c =
     (byte c \<le> 31 \<or> 126 < byte c \<or> byte c \<in> {32, 34, 35, 60, 62, 39})"
  by (auto simp: special_query_percent_encode_set_def query_percent_encode_set_def
      c0_control_percent_encode_set_def)

lemma percent_encode_byte_special:
  assumes "d \<in> set (percent_encode_byte c)"
  shows "\<not> special_query_percent_encode_set d \<and> d \<noteq> CHR 0x27"
proof -
  have h: "byte c div 16 < 16" "byte c mod 16 < 16"
    using byte_less_256 [of c] by auto
  have b: "byte (CHR ''%'') = 37" "byte (CHR 0x27) = 39"
    by (simp_all add: byte_def)
  from assms consider "d = CHR ''%''" | "d = hex_digit (byte c div 16)" | "d = hex_digit (byte c mod 16)"
    by (auto simp: percent_encode_byte_def)
  then have "byte d = 37 \<or> (48 \<le> byte d \<and> byte d \<le> 57) \<or> (65 \<le> byte d \<and> byte d \<le> 70)"
  proof cases
    case 1
    with b show ?thesis by simp
  next
    case 2
    with byte_hex_digit [OF h(1)] h(1) show ?thesis by (auto split: if_splits)
  next
    case 3
    with byte_hex_digit [OF h(2)] h(2) show ?thesis by (auto split: if_splits)
  qed
  then show ?thesis
    using b(2) by (auto simp: special_query_set_bytes)
qed

lemma uri_unreserved_special:
  assumes "uri_unreserved c"
  shows "special_query_percent_encode_set c = (c = CHR 0x27)"
proof -
  have "(c = CHR 0x27) = (byte c = 39)"
    by (simp add: byte_eq_iff [of c] byte_def)
  then show ?thesis
    using assms
    by (auto simp: special_query_set_bytes uri_unreserved_def is_ascii_alphanumeric_def
        is_ascii_alpha_def is_ascii_upper_alpha_def is_ascii_lower_alpha_def is_ascii_digit_def)
qed

lemma encodeURIComponent_special:
  assumes "d \<in> set (encodeURIComponent s)"
  shows "special_query_percent_encode_set d = (d = CHR 0x27)"
proof -
  from assms obtain c where "c \<in> set s"
    and "d \<in> set (if \<not> uri_unreserved c then percent_encode_byte c else [c])"
    by (auto simp: encodeURIComponent_def percent_encode_def)
  then show ?thesis
    using percent_encode_byte_special [of d c] uri_unreserved_special [of c]
    by (auto split: if_splits)
qed

lemma percent_encode_cong:
  "(\<And>c. c \<in> set s \<Longrightarrow> E1 c = E2 c) \<Longrightarrow> percent_encode E1 s = percent_encode E2 s"
  by (simp add: percent_encode_def cong: map_cong)

lemma scope_encoding:
  "percent_encode special_query_percent_encode_set (encodeURIComponent fp) =
   percent_encode (\<lambda>c. c = CHR 0x27) (encodeURIComponent fp)"
  by (rule percent_encode_cong) (rule encodeURIComponent_special)

lemma href_plain:
  "href \<lparr>scheme = sch, username = [], password = [], hostname = H, port = None,
         segments = S, query = Some q, fragment = None\<rparr> =
   sch @ ''://'' @ H @ concat (map ((#) CHR ''/'') S) @ CHR ''?'' # q"
  by (simp add: href_def url_host_def pathname_def)

lemma download_query_literal:
  "percent_encode special_query_percent_encode_set
     ''recursionLevel=full&download=true&api-version=6.0'' =
   ''recursionLevel=full&download=true&api-version=6.0''"
  "percent_encode special_query_percent_encode_set ''&scopePath='' = ''&scopePath=''"
  by code_simp+

lemma download_query_literal_chars:
  "list_all (\<lambda>c. 32 < byte c \<and> c \<noteq> CHR ''#'')
     ''recursionLevel=full&download=true&api-version=6.0''"
  "list_all (\<lambda>c. 32 < byte c \<and> c \<noteq> CHR ''#'') ''&scopePath=''"
  by code_simp+

lemma encodeURIComponent_list_all:
  "list_all (\<lambda>c. 32 < byte c \<and> c \<noteq> CHR ''#'') (encodeURIComponent fp)"
  unfolding list_all_iff using encodeURIComponent_chars by blast

lemma download_query_chars:
  "list_all (\<lambda>c. 32 < byte c \<and> c \<noteq> CHR ''#'')
     (''recursionLevel=full&download=true&api-version=6.0'' @
      (if fp \<noteq> [] then ''&scopePath='' @ encodeURIComponent fp else []))"
  by (cases "fp = []")
     (simp_all only: list_all_append download_query_literal_chars encodeURIComponent_list_all
       if_True if_False not_False_eq_True not_not simp_thms list.pred_inject(1))

lemma plain_host_parse:
  assumes "plain_host h"
  shows "parse_host h = Some h"
proof -
  have c: "\<forall>c\<in>set h. is_ascii_lower_alpha c \<or> is_ascii_digit c \<or>
                     c = CHR ''-'' \<or> c = CHR ''.'' \<or> c = CHR ''_''"
    using assms by (simp add: plain_host_def list_all_iff)
  have b: "byte (CHR ''-'') = 45" "byte (CHR ''.'') = 46" "byte (CHR ''_'') = 95"
    by (simp_all add: byte_def)
  have "\<forall>c\<in>set h. \<not> is_ascii_upper_alpha c"
  proof
    fix c assume "c \<in> set h"
    with c have "is_ascii_lower_alpha c \<or> is_ascii_digit c \<or>
                 c = CHR ''-'' \<or> c = CHR ''.'' \<or> c = CHR ''_''"
      by blast
    then show "\<not> is_ascii_upper_alpha c"
      using b
      by (auto simp: is_ascii_lower_alpha_def is_ascii_digit_def is_ascii_upper_alpha_def)
  qed
  then have l: "map ascii_lowercase h = h"
    by (intro map_idI) (simp add: ascii_lowercase_def)
  have p: "list_all is_plain_host_char h"
    using c
    by (auto simp: list_all_iff is_plain_host_char_def is_ascii_alphanumeric_def
        is_ascii_alpha_def)
  show ?thesis
    using assms p l by (simp add: parse_host_def plain_host_def)
qed

text \<open>
  Claim C9, as amended. Let \<open>parseGitUri\<close> read the tree URL as protocol \<open>http\<close> or
  \<open>https\<close>, a host that is a plain host, and an organization, project and
  repository that are plain segments (non-empty, of characters that \<open>new URL\<close>
  does not escape). Then the URL that \<open>getDownloadUrl\<close> returns is, as a string,
  \<open>{protocol}://{host}/{org}/{project}/_apis/git/repositories/{repo}/\<close>
  \<open>items?recursionLevel=full&download=true&api-version=6.0\<close>, followed by
  \<open>&scopePath=\<close> and the encoded file path when the file path is not empty, and by
  nothing when it is empty. The encoded file path is \<open>encodeURIComponent(filepath)\<close>
  as \<open>new URL\<close> keeps it: \<open>encodeURIComponent\<close> leaves the apostrophe, which the
  query of an \<open>http\<close> or \<open>https\<close> URL escapes as \<open>%27\<close>, and nothing else changes.
\<close>

theorem getDownloadUrl_href:
  assumes "parseGitUri url = Inr parsed"
    and "protocol parsed = ''https'' \<or> protocol parsed = ''http''"
    and "plain_host (resource parsed)"
    and "plain_segment (organization parsed)" "plain_segment (owner parsed)"
      "plain_segment (name parsed)"
  shows "map_sum id href (getDownloadUrl parseGitUri url) =
           Inr (protocol parsed @ ''://'' @ resource parsed @ ''/'' @ organization parsed @
                ''/'' @ owner parsed @ ''/_apis/git/repositories/'' @ name parsed @
                ''/items?recursionLevel=full&download=true&api-version=6.0'' @
                (if filepath parsed = [] then []
                 else ''&scopePath='' @
                      percent_encode (\<lambda>c. c = CHR 0x27)
                        (encodeURIComponent (filepath parsed))))"
proof -
  define Q where "Q = ''recursionLevel=full&download=true&api-version=6.0'' @
                      (if filepath parsed \<noteq> [] then ''&scopePath='' @ encodeURIComponent (filepath parsed)
                       else [])"
  define S where "S = [organization parsed, owner parsed, ''_apis'', ''git'', ''repositories'',
                       name parsed, ''items'']"
  have S: "S \<noteq> []" "\<forall>s\<in>set S. plain_segment s"
    using assms(4-6) plain_segment_literals by (auto simp: S_def)
  have Q: "\<forall>c\<in>set Q. 32 < byte c \<and> c \<noteq> CHR ''#''"
    unfolding Q_def by (rule download_query_chars [unfolded list_all_iff])
  have parse: "URL_new (protocol parsed @ ''://'' @ resource parsed @
                        concat (map ((#) CHR ''/'') S) @ CHR ''?'' # Q) =
         Inr \<lparr>scheme = protocol parsed, username = [], password = [],
              hostname = resource parsed, port = None, segments = S,
              query = Some (percent_encode special_query_percent_encode_set Q),
              fragment = None\<rparr>"
    using assms(2) plain_host_parse [OF assms(3)] S Q by (rule URL_new_plain)
  have same: "protocol parsed @ ''://'' @ resource parsed @ ''/'' @ organization parsed @
                ''/'' @ owner parsed @ ''/_apis/git/repositories/'' @ name parsed @
                ''/items?recursionLevel=full&download=true&api-version=6.0'' @
                (if filepath parsed \<noteq> [] then ''&scopePath='' @ encodeURIComponent (filepath parsed)
                 else []) =
              protocol parsed @ ''://'' @ resource parsed @
                concat (map ((#) CHR ''/'') S) @ CHR ''?'' # Q"
    by (simp add: S_def Q_def)
  have enc: "percent_encode special_query_percent_encode_set Q =
               ''recursionLevel=full&download=true&api-version=6.0'' @
                (if filepath parsed = [] then []
                 else ''&scopePath='' @
                      percent_encode special_query_percent_encode_set
                        (encodeURIComponent (filepath parsed)))"
  proof (cases "filepath parsed = []")
    case True
    then show ?thesis
      unfolding Q_def
      by (simp only: if_True if_False not_not not_False_eq_True simp_thms append_Nil2
          download_query_literal)
  next
    case False
    then show ?thesis
      unfolding Q_def
      by (simp only: if_True if_False not_False_eq_True simp_thms percent_encode_append
          download_query_literal)
  qed
  have "getDownloadUrl parseGitUri url =
         Inr \<lparr>scheme = protocol parsed, username = [], password = [],
              hostname = resource parsed, port = None, segments = S,
              query = Some (percent_encode special_query_percent_encode_set Q),
              fragment = None\<rparr>"
    unfolding getDownloadUrl_def assms(1) sum.case Let_def same by (rule parse)
  then show ?thesis
    unfolding enc scope_encoding by (simp add: href_plain S_def)
qed

lemma scope_encoding_example:
  "percent_encode (\<lambda>c. c = CHR 0x27) (encodeURIComponent ''docs/index.md'') = ''docs%2Findex.md''"
  by code_simp

lemma plain_host_azure: "plain_host ''dev.azure.com''"
  by code_simp

theorem getDownloadUrl_href_witness:
  "map_sum id href
     (getDownloadUrl (example_parseGitUri_path ''docs/index.md'')
        ''https://dev.azure.com/o/p/_git/r?path=docs/index.md'') =
     Inr ''https://dev.azure.com/o/p/_apis/git/repositories/r/items?recursionLevel=full&download=true&api-version=6.0&scopePath=docs%2Findex.md'' \<and>
   map_sum id href
     (getDownloadUrl (example_parseGitUri_path []) ''https://dev.azure.com/o/p/_git/r'') =
     Inr ''https://dev.azure.com/o/p/_apis/git/repositories/r/items?recursionLevel=full&download=true&api-version=6.0''"
proof -
  have "map_sum id href
     (getDownloadUrl (example_parseGitUri_path ''docs/index.md'')
        ''https://dev.azure.com/o/p/_git/r?path=docs/index.md'') =
     Inr ''https://dev.azure.com/o/p/_apis/git/repositories/r/items?recursionLevel=full&download=true&api-version=6.0&scopePath=docs%2Findex.md''"
    using getDownloadUrl_href [where parseGitUri = "example_parseGitUri_path ''docs/index.md''"
        and url = "''https://dev.azure.com/o/p/_git/r?path=docs/index.md''"
        and parsed = "\<lparr>name = ''r'', owner = ''p'', organization = ''o'', protocol = ''https'',
                        resource = ''dev.azure.com'', filepath = ''docs/index.md''\<rparr>"]
      plain_host_azure plain_examples(1,2,3)
    by (simp add: example_parseGitUri_path_def scope_encoding_example)
  moreover have "map_sum id href
     (getDownloadUrl (example_parseGitUri_path []) ''https://dev.azure.com/o/p/_git/r'') =
     Inr ''https://dev.azure.com/o/p/_apis/git/repositories/r/items?recursionLevel=full&download=true&api-version=6.0''"
    using getDownloadUrl_href [where parseGitUri = "example_parseGitUri_path []"
        and url = "''https://dev.azure.com/o/p/_git/r''"
        and parsed = "\<lparr>name = ''r'', owner = ''p'', organization = ''o'', protocol = ''https'',
                        resource = ''dev.azure.com'', filepath = []\<rparr>"]
      plain_host_azure plain_examples(1,2,3)
    by (simp add: example_parseGitUri_path_def)
  ultimately show ?thesis by blast
qed

text \<open>
  The claim as stated, for every tree URL, fails. The URL is built by \<open>new URL\<close> from
  the pieces that \<open>parseGitUri\<close> gives, and \<open>new URL\<close> escapes what a path may not
  hold: for an organization read as \<open>my org\<close> the derived URL has \<open>my%20org\<close>, which
  is not the text that the pattern of the claim gives.
\<close>

theorem getDownloadUrl_organization_counterexample:
  "map_sum id href
     (getDownloadUrl (example_parseGitUri_organization ''my org'')
        ''https://dev.azure.com/my org/p/_git/r'') =
     Inr ''https://dev.azure.com/my%20org/p/_apis/git/repositories/r/items?recursionLevel=full&download=true&api-version=6.0'' \<and>
   map_sum id href
     (getDownloadUrl (example_parseGitUri_organization ''my org'')
        ''https://dev.azure.com/my org/p/_git/r'') \<noteq>
     Inr ''https://dev.azure.com/my org/p/_apis/git/repositories/r/items?recursionLevel=full&download=true&api-version=6.0''"
proof -
  have "map_sum id href
     (getDownloadUrl (example_parseGitUri_organization ''my org'')
        ''https://dev.azure.com/my org/p/_git/r'') =
     Inr ''https://dev.azure.com/my%20org/p/_apis/git/repositories/r/items?recursionLevel=full&download=true&api-version=6.0''"
    by code_simp
  then show ?thesis
    by simp
qed

subsection \<open>The predicate of a reader\<close>

lemma map_throwing_factory:
  assumes "map_throwing
            (\<lambda>opts. case AzureUrlReader_new opts ds of
                      Inl e \<Rightarrow> Inl e
                    | Inr reader \<Rightarrow> Inr (reader, \<lambda>url. url_host url = host opts))
            configs = Inr rs"
  shows "length rs = length configs \<and>
         (\<forall>i<length configs. options (fst (rs ! i)) = configs ! i \<and>
            (\<forall>url. snd (rs ! i) url = (url_host url = host (configs ! i))))"
  using assms
proof (induction configs arbitrary: rs)
  case Nil
  then show ?case by simp
next
  case (Cons c cs)
  then show ?case
    by (auto simp: AzureUrlReader_new_def nth_Cons split: sum.splits if_splits nat.splits)
qed

text \<open>
  Claim C10. When \<open>factory\<close> returns, it returns one reader and one predicate for
  each configuration entry, in order; the reader holds that entry, and its predicate
  is true of a URL exactly when the URL's \<open>host\<close> (the host name, with the port when
  there is one) is equal, as a string, to the \<open>host\<close> of that entry. No other entry
  has a part in it.
\<close>

theorem factory_predicate:
  assumes "readAzureIntegrationConfigs
             (case getOptionalConfigArray ''integrations.azure'' of None \<Rightarrow> [] | Some a \<Rightarrow> a) =
           Inr configs"
    and "factory readAzureIntegrationConfigs getOptionalConfigArray trf = Inr rs"
  shows "length rs = length configs \<and>
         (\<forall>i<length configs. options (fst (rs ! i)) = configs ! i \<and>
            (\<forall>url. snd (rs ! i) url = (url_host url = host (configs ! i))))"
  using assms by (intro map_throwing_factory [where ds = "\<lparr>treeResponseFactory = trf\<rparr>"])
    (simp add: factory_def)

theorem factory_predicate_witness:
  "\<exists>rs. factory Inr (\<lambda>key. Some example_configs) \<lparr>fromZipArchive = (\<lambda>archive. Inr ())\<rparr> = Inr rs \<and>
        length rs = 2 \<and>
        snd (rs ! 0) (example_url ''dev.azure.com'' None) \<and>
        snd (rs ! 1) (example_url ''dev.azure.com'' None) \<and>
        \<not> snd (rs ! 0) (example_url ''dev.azure.com'' (Some 8080)) \<and>
        \<not> snd (rs ! 1) (example_url ''example.com'' None)"
proof -
  obtain rs where rs: "factory Inr (\<lambda>key. Some example_configs)
                         \<lparr>fromZipArchive = (\<lambda>archive. Inr ())\<rparr> = Inr (rs :: (unit AzureUrlReader \<times> (URL \<Rightarrow> bool)) list)"
    by (simp add: factory_def example_configs_def AzureUrlReader_new_def)
  have c: "Inr (case Some example_configs of None \<Rightarrow> [] | Some a \<Rightarrow> a) =
             (Inr example_configs :: error + AzureIntegrationConfig list)"
    by simp
  note p = factory_predicate [OF c rs]
  have h: "url_host (example_url ''dev.azure.com'' None) = ''dev.azure.com''"
    "url_host (example_url ''dev.azure.com'' (Some 8080)) \<noteq> ''dev.azure.com''"
    "url_host (example_url ''example.com'' None) \<noteq> ''dev.azure.com''"
    by (simp_all add: url_host_def example_url_def)
  from p h rs show ?thesis
    by (auto simp: example_configs_def)
qed

end
